theory Spec2Isabelle
  imports Main
begin

section \<open>Values shared by the route handlers\<close>

text \<open>
  Identifiers are the strings Prisma hands out; a \<open>Date\<close> is its \<open>getTime()\<close> value,
  an integer number of milliseconds.  \<open>jsval\<close> stands for what \<open>JSON.parse\<close> can yield
  (plus \<open>undefined\<close>); numbers are kept as integers, which is all the handlers look at
  (their truthiness).
\<close>

type_synonym ident = string
type_synonym timestamp = int

datatype jsval =
    JUndefined
  | JNull
  | JBool bool
  | JNum int
  | JStr string
  | JArr "jsval list"
  | JObj "(string \<times> jsval) list"

text \<open>The session object of \<open>getServerSession\<close>: \<open>session?.user?.id\<close>.\<close>

record session_user =
  user_id :: "ident option"

record session =
  user :: "session_user option"

text \<open>Rows of the store, field by field as the handlers and \<open>types\<close> name them.\<close>

record rateLimit =
  rl_userId :: ident
  rl_endpoint :: string
  rl_count :: int
  rl_windowStart :: timestamp

record conversation =
  conv_id :: ident
  conv_userId :: ident
  conv_title :: string
  conv_createdAt :: timestamp
  conv_updatedAt :: timestamp

datatype role = RoleUser | RoleAssistant

record message =
  msg_id :: ident
  msg_conversationId :: ident
  msg_role :: role
  msg_content :: string
  msg_sources :: "jsval option"
  msg_createdAt :: timestamp

record document =
  doc_id :: ident
  doc_userId :: ident
  doc_filename :: string
  doc_originalName :: string
  doc_fileType :: string
  doc_fileSize :: nat
  doc_status :: string
  doc_uploadedAt :: timestamp

record user_row =
  usr_id :: ident
  usr_password :: "string option"

text \<open>An outbound \<open>axios.post(url, data, config)\<close>; \<open>ax_timeout\<close> is \<open>config.timeout\<close>.\<close>

record axios_request =
  ax_url :: string
  ax_data :: jsval
  ax_timeout :: "nat option"

text \<open>Every write to the store or the disk and every outbound request, in issue order.\<close>

datatype event =
    RateLimitCreate ident string
  | RateLimitUpdate ident string
  | ConversationCreate ident
  | ConversationUpdate ident
  | MessageCreate ident role
  | DocumentCreate ident
  | UserUpdate ident
  | Mkdir string
  | WriteFile string
  | AxiosPost axios_request

record world =
  rateLimits :: "ident \<times> string \<rightharpoonup> rateLimit"
  conversations :: "conversation list"
  messages :: "message list"
  documents :: "document list"
  users :: "ident \<rightharpoonup> user_row"
  dirs :: "string set"
  files :: "string \<rightharpoonup> nat list"
  effects :: "event list"

definition emit :: "event \<Rightarrow> world \<Rightarrow> world" where
  "emit ev w = w\<lparr>effects := effects w @ [ev]\<rparr>"

text \<open>What a call that took the world from \<open>w\<close> to \<open>w'\<close> issued.\<close>

definition issued :: "world \<Rightarrow> world \<Rightarrow> event list" where
  "issued w w' = drop (length (effects w)) (effects w')"

section \<open>Rate limiter (\<open>lib/rate-limit.ts\<close>)\<close>

definition RATE_LIMIT_WINDOW :: int where
  "RATE_LIMIT_WINDOW = 15 * 60 * 1000"

definition MAX_REQUESTS :: int where
  "MAX_REQUESTS = 100"

text \<open>
  \<open>session?.user?.id\<close> when it is truthy: a missing session, a missing user, a missing
  id and the empty string all give \<open>None\<close>.
\<close>

definition session_user_id :: "session option \<Rightarrow> ident option" where
  "session_user_id s =
     (case s of
        None \<Rightarrow> None
      | Some se \<Rightarrow>
          (case user se of
             None \<Rightarrow> None
           | Some u \<Rightarrow>
               (case user_id u of
                  None \<Rightarrow> None
                | Some i \<Rightarrow> if i = [] then None else Some i)))"

definition rateLimit_create :: "rateLimit \<Rightarrow> world \<Rightarrow> world" where
  "rateLimit_create r w =
     emit (RateLimitCreate (rl_userId r) (rl_endpoint r))
       (w\<lparr>rateLimits := (rateLimits w)((rl_userId r, rl_endpoint r) \<mapsto> r)\<rparr>)"

definition rateLimit_update ::
  "ident \<times> string \<Rightarrow> (rateLimit \<Rightarrow> rateLimit) \<Rightarrow> world \<Rightarrow> world" where
  "rateLimit_update k f w =
     emit (RateLimitUpdate (fst k) (snd k))
       (w\<lparr>rateLimits := (rateLimits w)(k := map_option f (rateLimits w k))\<rparr>)"

text \<open>
  \<open>checkRateLimit(endpoint)\<close>, as one call with no other call between its read and
  its write.  The session and the clock reading \<open>now = new Date()\<close> are inputs; the
  result is the returned boolean and the store afterwards.
\<close>

definition checkRateLimit ::
  "session option \<Rightarrow> string \<Rightarrow> timestamp \<Rightarrow> world \<Rightarrow> bool \<times> world" where
  "checkRateLimit sess endpoint now w =
     (case session_user_id sess of
        None \<Rightarrow> (False, w)
      | Some userId \<Rightarrow>
          (let windowStart = now - RATE_LIMIT_WINDOW in
           case rateLimits w (userId, endpoint) of
             None \<Rightarrow>
               (True,
                rateLimit_create
                  \<lparr>rl_userId = userId, rl_endpoint = endpoint,
                   rl_count = 1, rl_windowStart = now\<rparr> w)
           | Some rl \<Rightarrow>
               if rl_windowStart rl < windowStart then
                 (True,
                  rateLimit_update (userId, endpoint)
                    (\<lambda>r. r\<lparr>rl_count := 1, rl_windowStart := now\<rparr>) w)
               else if rl_count rl \<ge> MAX_REQUESTS then (False, w)
               else
                 (True,
                  rateLimit_update (userId, endpoint)
                    (\<lambda>r. r\<lparr>rl_count := rl_count r + 1\<rparr>) w)))"

text \<open>
  The same function at its await of \<open>findUnique\<close>.  \<open>checkRateLimit_read\<close> is lines
  10--27: what the call holds once the read has resolved.  \<open>checkRateLimit_write\<close> is
  lines 29--75, run on what was read against the store as it is by then; no transaction
  ties the two together.  \<open>None\<close> is a call that throws: Prisma rejects a \<open>create\<close> for
  a key that exists and an \<open>update\<close> of a row that does not.  The \<open>increment\<close> is applied
  by the store to the row as it is.
\<close>

datatype check_read = NoSubject | Found ident "rateLimit option"

definition checkRateLimit_read :: "session option \<Rightarrow> string \<Rightarrow> world \<Rightarrow> check_read" where
  "checkRateLimit_read sess endpoint w =
     (case session_user_id sess of
        None \<Rightarrow> NoSubject
      | Some userId \<Rightarrow> Found userId (rateLimits w (userId, endpoint)))"

definition checkRateLimit_write ::
  "string \<Rightarrow> timestamp \<Rightarrow> check_read \<Rightarrow> world \<Rightarrow> bool option \<times> world" where
  "checkRateLimit_write endpoint now rd w =
     (case rd of
        NoSubject \<Rightarrow> (Some False, w)
      | Found userId found \<Rightarrow>
          (let windowStart = now - RATE_LIMIT_WINDOW in
           case found of
             None \<Rightarrow>
               (case rateLimits w (userId, endpoint) of
                  None \<Rightarrow>
                    (Some True,
                     rateLimit_create
                       \<lparr>rl_userId = userId, rl_endpoint = endpoint,
                        rl_count = 1, rl_windowStart = now\<rparr> w)
                | Some existing \<Rightarrow> (None, w))
           | Some rl \<Rightarrow>
               if rl_windowStart rl < windowStart then
                 (case rateLimits w (userId, endpoint) of
                    None \<Rightarrow> (None, w)
                  | Some existing \<Rightarrow>
                      (Some True,
                       rateLimit_update (userId, endpoint)
                         (\<lambda>r. r\<lparr>rl_count := 1, rl_windowStart := now\<rparr>) w))
               else if rl_count rl \<ge> MAX_REQUESTS then (Some False, w)
               else
                 (case rateLimits w (userId, endpoint) of
                    None \<Rightarrow> (None, w)
                  | Some existing \<Rightarrow>
                      (Some True,
                       rateLimit_update (userId, endpoint)
                         (\<lambda>r. r\<lparr>rl_count := rl_count r + 1\<rparr>) w))))"

text \<open>
  Two calls for one session and endpoint that overlap: both reads resolve before either
  call writes.  The result is what the first call returns, what the second returns, and
  the store afterwards.
\<close>

definition checkRateLimit_overlapped ::
  "session option \<Rightarrow> string \<Rightarrow> timestamp \<Rightarrow> timestamp \<Rightarrow> world
     \<Rightarrow> bool option \<times> bool option \<times> world" where
  "checkRateLimit_overlapped sess endpoint now1 now2 w =
     (let rd1 = checkRateLimit_read sess endpoint w;
          rd2 = checkRateLimit_read sess endpoint w;
          first = checkRateLimit_write endpoint now1 rd1 w;
          second = checkRateLimit_write endpoint now2 rd2 (snd first)
      in (fst first, fst second, snd second))"

text \<open>
  Calls that do not overlap: admission is requested for one session and endpoint at the
  given clock readings, each call returning before the next begins.  How many of them
  were admitted.
\<close>

fun admitted :: "session option \<Rightarrow> string \<Rightarrow> timestamp list \<Rightarrow> world \<Rightarrow> nat" where
  "admitted sess endpoint [] w = 0"
| "admitted sess endpoint (t # ts) w =
     (case checkRateLimit sess endpoint t w of
        (ok, w') \<Rightarrow> (if ok then 1 else 0) + admitted sess endpoint ts w')"

section \<open>What the handlers share\<close>

text \<open>
  \<open>NextResponse.json(body, {status})\<close>.  \<open>Message\<close> is the \<open>{message: ...}\<close> body of
  the error replies; the other two are \<open>ChatResponse\<close> and \<open>UploadResponse\<close> of
  \<open>types\<close>.
\<close>

datatype payload =
    Message string
  | ChatResponse ident message
  | UploadResponse ident string string

record response =
  res_status :: nat
  res_body :: payload

definition json :: "payload \<Rightarrow> nat \<Rightarrow> response" where
  "json b st = \<lparr>res_status = st, res_body = b\<rparr>"

text \<open>
  How far a handler's \<open>try\<close> block gets: it goes on with a value, returns a response,
  throws (to the enclosing \<open>catch\<close>), or awaits a promise that never settles.  Each
  carries the world as it is at that point.
\<close>

datatype 'a step =
    Continue 'a world
  | Respond response world
  | Raise world
  | Hang world

text \<open>Sequencing: the next statement runs only if this one went on.\<close>

definition and_then :: "'a step \<Rightarrow> ('a \<Rightarrow> world \<Rightarrow> 'b step) \<Rightarrow> 'b step" where
  "and_then s f =
     (case s of
        Continue x w \<Rightarrow> f x w
      | Respond r w \<Rightarrow> Respond r w
      | Raise w \<Rightarrow> Raise w
      | Hang w \<Rightarrow> Hang w)"

text \<open>
  The external backend, as seen through \<open>axios.post\<close>: it answers with a 2xx status
  and a parsed body, the request fails (and the promise rejects), or nothing ever comes
  back.  With a \<open>timeout\<close> in the request config axios rejects a request that is never
  answered; without one it waits.
\<close>

datatype axios_error = NetworkError | BadStatus nat | TimeoutExceeded

datatype backend = Answers jsval | Fails axios_error | Silent

datatype axios_result = Resolved jsval | Rejected axios_error | Pending

definition axios_post :: "axios_request \<Rightarrow> backend \<Rightarrow> axios_result" where
  "axios_post req b =
     (case b of
        Answers d \<Rightarrow> Resolved d
      | Fails e \<Rightarrow> Rejected e
      | Silent \<Rightarrow>
          (case ax_timeout req of
             None \<Rightarrow> Pending
           | Some ms \<Rightarrow> Rejected TimeoutExceeded))"

text \<open>\<open>process.env.BACKEND_API_URL || "http://localhost:8000"\<close>\<close>

definition backendUrl :: "string option \<Rightarrow> string" where
  "backendUrl var =
     (case var of
        None \<Rightarrow> ''http://localhost:8000''
      | Some u \<Rightarrow> if u = [] then ''http://localhost:8000'' else u)"

text \<open>
  Reading a property of a JavaScript value: \<open>None\<close> is the \<open>TypeError\<close> raised on
  \<open>null\<close> and \<open>undefined\<close>; a missing property reads as \<open>undefined\<close>.  The pairs of a
  \<open>JObj\<close> are the own properties of the parsed object.
\<close>

fun get_prop :: "jsval \<Rightarrow> string \<Rightarrow> jsval option" where
  "get_prop JUndefined k = None"
| "get_prop JNull k = None"
| "get_prop (JObj kvs) k = Some (case map_of kvs k of None \<Rightarrow> JUndefined | Some v \<Rightarrow> v)"
| "get_prop v k = Some JUndefined"

fun truthy :: "jsval \<Rightarrow> bool" where
  "truthy JUndefined = False"
| "truthy JNull = False"
| "truthy (JBool b) = b"
| "truthy (JNum n) = (n \<noteq> 0)"
| "truthy (JStr s) = (s \<noteq> [])"
| "truthy v = True"

text \<open>An optional string that is truthy: present and not empty.\<close>

definition present :: "string option \<Rightarrow> string option" where
  "present v = (case v of None \<Rightarrow> None | Some x \<Rightarrow> if x = [] then None else Some x)"

definition js_id :: "ident option \<Rightarrow> jsval" where
  "js_id i = (case i of None \<Rightarrow> JUndefined | Some x \<Rightarrow> JStr x)"

text \<open>
  The id and the creation time that the store gives a new row (the \<open>@default\<close>s of the
  Prisma schema); they are inputs here.  A new Conversation gets the creation time as
  both \<open>createdAt\<close> and \<open>updatedAt\<close>.
\<close>

record stamp =
  new_id :: ident
  stamped_at :: timestamp

section \<open>Chat route (\<open>POST /api/chat\<close>)\<close>

text \<open>\<open>ChatRequest\<close> of \<open>types\<close>: the parsed request body.\<close>

record ChatRequest =
  req_conversationId :: "string option"
  req_message :: string

record chat_env =
  BACKEND_API_URL :: "string option"
  chat_backend :: backend
  conversationStamp :: stamp
  userMessageStamp :: stamp
  assistantMessageStamp :: stamp
  touchedAt :: timestamp

text \<open>
  The store: tables are lists of rows in insertion order; \<open>findUnique\<close> by id is the
  row with that id, \<open>update\<close> rewrites the rows with that id.
\<close>

definition conversation_findUnique :: "ident \<Rightarrow> world \<Rightarrow> conversation option" where
  "conversation_findUnique cid w = find (\<lambda>c. conv_id c = cid) (conversations w)"

definition conversation_create :: "conversation \<Rightarrow> world \<Rightarrow> world" where
  "conversation_create c w =
     emit (ConversationCreate (conv_id c))
       (w\<lparr>conversations := conversations w @ [c]\<rparr>)"

definition conversation_update ::
  "ident \<Rightarrow> (conversation \<Rightarrow> conversation) \<Rightarrow> world \<Rightarrow> world" where
  "conversation_update cid f w =
     emit (ConversationUpdate cid)
       (w\<lparr>conversations :=
            map (\<lambda>c. if conv_id c = cid then f c else c) (conversations w)\<rparr>)"

definition message_create :: "message \<Rightarrow> world \<Rightarrow> world" where
  "message_create m w =
     emit (MessageCreate (msg_conversationId m) (msg_role m))
       (w\<lparr>messages := messages w @ [m]\<rparr>)"

definition apology :: string where
  "apology =
     ''I apologize, but I'm having trouble processing your request right now. Please try again later.''"

definition fallbackResponse :: jsval where
  "fallbackResponse = JObj [(''content'', JStr apology), (''sources'', JArr [])]"

text \<open>
  The rows the handler writes.  The title is \<open>message.substring(0, 50)\<close>: the first 50
  characters of the message, all of it when it is shorter.
\<close>

definition new_conversation :: "ident \<Rightarrow> ChatRequest \<Rightarrow> chat_env \<Rightarrow> conversation" where
  "new_conversation uid req env =
     \<lparr>conv_id = new_id (conversationStamp env), conv_userId = uid,
      conv_title = take 50 (req_message req),
      conv_createdAt = stamped_at (conversationStamp env),
      conv_updatedAt = stamped_at (conversationStamp env)\<rparr>"

definition user_message :: "conversation \<Rightarrow> ChatRequest \<Rightarrow> chat_env \<Rightarrow> message" where
  "user_message c req env =
     \<lparr>msg_id = new_id (userMessageStamp env), msg_conversationId = conv_id c,
      msg_role = RoleUser, msg_content = req_message req, msg_sources = None,
      msg_createdAt = stamped_at (userMessageStamp env)\<rparr>"

definition assistant_message :: "conversation \<Rightarrow> string \<Rightarrow> jsval \<Rightarrow> chat_env \<Rightarrow> message" where
  "assistant_message c content srcs env =
     \<lparr>msg_id = new_id (assistantMessageStamp env), msg_conversationId = conv_id c,
      msg_role = RoleAssistant, msg_content = content, msg_sources = Some srcs,
      msg_createdAt = stamped_at (assistantMessageStamp env)\<rparr>"

text \<open>
  Lines 21--37: \<open>conversation?.userId !== session.user.id\<close> compares two values either
  of which may be \<open>undefined\<close> (\<open>None\<close>); a \<open>create\<close> without a \<open>userId\<close> is rejected
  by Prisma before anything is written.
\<close>

definition resolve_conversation ::
  "session_user \<Rightarrow> ChatRequest \<Rightarrow> chat_env \<Rightarrow> world \<Rightarrow> conversation option step" where
  "resolve_conversation u req env w =
     (case present (req_conversationId req) of
        Some conversationId \<Rightarrow>
          (let conversation = conversation_findUnique conversationId w in
           if map_option conv_userId conversation \<noteq> user_id u then
             Respond (json (Message ''Forbidden'') 403) w
           else Continue conversation w)
      | None \<Rightarrow>
          (case user_id u of
             None \<Rightarrow> Raise w
           | Some uid \<Rightarrow>
               (let c = new_conversation uid req env
                in Continue (Some c) (conversation_create c w))))"

text \<open>Lines 39--45; \<open>conversation.id\<close> on \<open>null\<close> is a \<open>TypeError\<close>.\<close>

definition persist_user_message ::
  "conversation option \<Rightarrow> ChatRequest \<Rightarrow> chat_env \<Rightarrow> world \<Rightarrow> conversation step" where
  "persist_user_message conversation req env w =
     (case conversation of
        None \<Rightarrow> Raise w
      | Some c \<Rightarrow>
          Continue c (message_create (user_message c req env) w))"

text \<open>Lines 47--63: the request carries no config, hence no timeout.\<close>

definition chat_request :: "session_user \<Rightarrow> ChatRequest \<Rightarrow> chat_env \<Rightarrow> axios_request" where
  "chat_request u req env =
     \<lparr>ax_url = backendUrl (BACKEND_API_URL env) @ ''/api/chat'',
      ax_data = JObj [(''userId'', js_id (user_id u)), (''message'', JStr (req_message req))],
      ax_timeout = None\<rparr>"

definition invoke_backend ::
  "session_user \<Rightarrow> ChatRequest \<Rightarrow> chat_env \<Rightarrow> world \<Rightarrow> jsval step" where
  "invoke_backend u req env w =
     (let w1 = emit (AxiosPost (chat_request u req env)) w in
      case axios_post (chat_request u req env) (chat_backend env) of
        Resolved d \<Rightarrow> Continue d w1
      | Rejected e \<Rightarrow> Continue fallbackResponse w1
      | Pending \<Rightarrow> Hang w1)"

text \<open>
  Lines 65--72: \<open>assistantResponse.content\<close> and \<open>assistantResponse.sources || []\<close> are
  read first; \<open>Message.content\<close> is a string column, so Prisma rejects anything else.
\<close>

definition persist_assistant_message ::
  "conversation \<Rightarrow> jsval \<Rightarrow> chat_env \<Rightarrow> world \<Rightarrow> message step" where
  "persist_assistant_message c assistantResponse env w =
     (case get_prop assistantResponse ''content'' of
        None \<Rightarrow> Raise w
      | Some content \<Rightarrow>
          (case get_prop assistantResponse ''sources'' of
             None \<Rightarrow> Raise w
           | Some srcs \<Rightarrow>
               (case content of
                  JStr text \<Rightarrow>
                    (let m = assistant_message c text
                               (if truthy srcs then srcs else JArr []) env
                     in Continue m (message_create m w))
                | _ \<Rightarrow> Raise w)))"

text \<open>Lines 47--82, what follows the write of the user message.\<close>

definition complete_turn ::
  "session_user \<Rightarrow> conversation \<Rightarrow> ChatRequest \<Rightarrow> chat_env \<Rightarrow> world \<Rightarrow> response step" where
  "complete_turn u c req env w2 =
     and_then (invoke_backend u req env w2) (\<lambda>assistantResponse w3.
     and_then (persist_assistant_message c assistantResponse env w3)
       (\<lambda>assistantMessage w4.
          Respond (json (ChatResponse (conv_id c) assistantMessage) 200)
            (conversation_update (conv_id c)
               (\<lambda>r. r\<lparr>conv_updatedAt := touchedAt env\<rparr>) w4)))"

text \<open>The \<open>try\<close> block of \<open>POST\<close>, lines 9--82.\<close>

definition chat_try ::
  "session option \<Rightarrow> ChatRequest \<Rightarrow> chat_env \<Rightarrow> world \<Rightarrow> response step" where
  "chat_try sess req env w =
     (case (case sess of None \<Rightarrow> None | Some se \<Rightarrow> user se) of
        None \<Rightarrow> Respond (json (Message ''Unauthorized'') 401) w
      | Some u \<Rightarrow>
          if req_message req = [] then
            Respond (json (Message ''Message is required'') 400) w
          else
            and_then (resolve_conversation u req env w) (\<lambda>conversation w1.
            and_then (persist_user_message conversation req env w1) (\<lambda>c w2.
            complete_turn u c req env w2)))"

text \<open>
  A handler with its enclosing \<open>catch\<close>: the response sent (\<open>None\<close> when the handler
  never gets to send one) and the world afterwards.
\<close>

definition respond :: "response step \<Rightarrow> response option \<times> world" where
  "respond s =
     (case s of
        Continue r w \<Rightarrow> (Some r, w)
      | Respond r w \<Rightarrow> (Some r, w)
      | Raise w \<Rightarrow> (Some (json (Message ''Internal server error'') 500), w)
      | Hang w \<Rightarrow> (None, w))"

definition POST_chat ::
  "session option \<Rightarrow> ChatRequest \<Rightarrow> chat_env \<Rightarrow> world \<Rightarrow> response option \<times> world" where
  "POST_chat sess req env w = respond (chat_try sess req env w)"

section \<open>Upload route (\<open>POST /api/upload\<close>)\<close>

text \<open>The \<open>File\<close> taken from the form data, and what the handler reads of it.\<close>

record upload_file =
  file_name :: string
  file_type :: string
  file_size :: nat
  file_bytes :: "nat list"

text \<open>
  \<open>pathJoin\<close> and \<open>dirname\<close> are Node's \<open>path.join\<close> and \<open>path.dirname\<close>, \<open>cwd\<close> is
  \<open>process.cwd()\<close> and \<open>dateNow\<close> is the reading of \<open>Date.now()\<close>.  \<open>faulty\<close> says which
  of the awaited operations rejects for a reason that lies outside the world modelled
  here (no permission, a full disk, an unreachable store).
\<close>

datatype upload_op = OpMkdir | OpWriteFile | OpDocumentCreate

record upload_env =
  up_BACKEND_API_URL :: "string option"
  upload_backend :: backend
  cwd :: string
  pathJoin :: "string \<Rightarrow> string \<Rightarrow> string"
  dirname :: "string \<Rightarrow> string"
  dateNow :: timestamp
  documentStamp :: stamp
  faulty :: "upload_op \<Rightarrow> bool"

text \<open>A number inside a template literal: its decimal digits.\<close>

definition digit :: "nat \<Rightarrow> char" where
  "digit d =
     (if d = 0 then CHR ''0'' else if d = 1 then CHR ''1'' else if d = 2 then CHR ''2''
      else if d = 3 then CHR ''3'' else if d = 4 then CHR ''4'' else if d = 5 then CHR ''5''
      else if d = 6 then CHR ''6'' else if d = 7 then CHR ''7'' else if d = 8 then CHR ''8''
      else CHR ''9'')"

fun digits :: "nat \<Rightarrow> string" where
  "digits n = (if n < 10 then [digit n] else digits (n div 10) @ [digit (n mod 10)])"

definition show_int :: "int \<Rightarrow> string" where
  "show_int i = (if i < 0 then ''-'' @ digits (nat (- i)) else digits (nat i))"

text \<open>
  \<open>mkdir(dir, {recursive: true})\<close> is satisfied with a directory that exists and rejects
  when a file has that name.  \<open>writeFile(path, buffer)\<close> rejects when the directory of
  \<open>path\<close> does not exist (as for a file name with a directory in it) or \<open>path\<close> is a
  directory.  A rejected operation leaves the disk as it was.
\<close>

definition mkdir :: "upload_env \<Rightarrow> string \<Rightarrow> world \<Rightarrow> unit step" where
  "mkdir env d w =
     (if faulty env OpMkdir \<or> files w d \<noteq> None then Raise w
      else Continue () (emit (Mkdir d) (w\<lparr>dirs := insert d (dirs w)\<rparr>)))"

definition writeFile :: "upload_env \<Rightarrow> string \<Rightarrow> nat list \<Rightarrow> world \<Rightarrow> unit step" where
  "writeFile env f bytes w =
     (if faulty env OpWriteFile \<or> dirname env f \<notin> dirs w \<or> f \<in> dirs w then Raise w
      else Continue () (emit (WriteFile f) (w\<lparr>files := (files w)(f \<mapsto> bytes)\<rparr>)))"

definition upload_filename :: "upload_file \<Rightarrow> upload_env \<Rightarrow> string" where
  "upload_filename f env = show_int (dateNow env) @ ''-'' @ file_name f"

definition upload_filepath :: "upload_file \<Rightarrow> upload_env \<Rightarrow> string" where
  "upload_filepath f env =
     pathJoin env (pathJoin env (cwd env) ''uploads'') (upload_filename f env)"

text \<open>The row of lines 35--44.\<close>

definition upload_document :: "ident \<Rightarrow> upload_file \<Rightarrow> upload_env \<Rightarrow> document" where
  "upload_document uid f env =
     \<lparr>doc_id = new_id (documentStamp env), doc_userId = uid,
      doc_filename = upload_filename f env, doc_originalName = file_name f,
      doc_fileType = file_type f, doc_fileSize = file_size f,
      doc_status = ''processing'', doc_uploadedAt = stamped_at (documentStamp env)\<rparr>"

definition process_request :: "document \<Rightarrow> session_user \<Rightarrow> upload_file \<Rightarrow> upload_env \<Rightarrow> axios_request" where
  "process_request d u f env =
     \<lparr>ax_url = backendUrl (up_BACKEND_API_URL env) @ ''/api/process-document'',
      ax_data = JObj [(''documentId'', JStr (doc_id d)),
                      (''filename'', JStr (upload_filename f env)),
                      (''filepath'', JStr (upload_filepath f env)),
                      (''userId'', js_id (user_id u))],
      ax_timeout = None\<rparr>"

text \<open>
  Lines 35--44: a \<open>create\<close> without a \<open>userId\<close> is rejected by Prisma, and the store
  may reject any \<open>create\<close>; the file is on disk by then.
\<close>

definition document_create ::
  "upload_env \<Rightarrow> session_user \<Rightarrow> upload_file \<Rightarrow> world \<Rightarrow> document step" where
  "document_create env u f w =
     (case user_id u of
        None \<Rightarrow> Raise w
      | Some uid \<Rightarrow>
          if faulty env OpDocumentCreate then Raise w
          else
            (let document = upload_document uid f env
             in Continue document
                  (emit (DocumentCreate (doc_id document))
                     (w\<lparr>documents := documents w @ [document]\<rparr>))))"

text \<open>
  Lines 46--63: the inner \<open>catch\<close> only logs, so a rejected and a resolved request go on
  alike to the same response.
\<close>

definition trigger_processing ::
  "document \<Rightarrow> session_user \<Rightarrow> upload_file \<Rightarrow> upload_env \<Rightarrow> world \<Rightarrow> response step" where
  "trigger_processing document u f env w =
     (let w4 = emit (AxiosPost (process_request document u f env)) w
      in case axios_post (process_request document u f env) (upload_backend env) of
           Pending \<Rightarrow> Hang w4
         | Resolved d \<Rightarrow>
             Respond
               (json (UploadResponse (doc_id document)
                  (doc_filename document) (doc_status document)) 200) w4
         | Rejected e \<Rightarrow>
             Respond
               (json (UploadResponse (doc_id document)
                  (doc_filename document) (doc_status document)) 200) w4)"

text \<open>The \<open>try\<close> block of \<open>POST\<close>, lines 11--63.\<close>

definition upload_try ::
  "session option \<Rightarrow> upload_file option \<Rightarrow> upload_env \<Rightarrow> world \<Rightarrow> response step" where
  "upload_try sess file env w =
     (case (case sess of None \<Rightarrow> None | Some se \<Rightarrow> user se) of
        None \<Rightarrow> Respond (json (Message ''Unauthorized'') 401) w
      | Some u \<Rightarrow>
          (case file of
             None \<Rightarrow> Respond (json (Message ''No file provided'') 400) w
           | Some f \<Rightarrow>
               and_then (mkdir env (pathJoin env (cwd env) ''uploads'') w) (\<lambda>made w1.
               and_then (writeFile env (upload_filepath f env) (file_bytes f) w1)
                 (\<lambda>written w2.
               and_then (document_create env u f w2) (\<lambda>document w3.
               trigger_processing document u f env w3)))))"

definition POST_upload ::
  "session option \<Rightarrow> upload_file option \<Rightarrow> upload_env \<Rightarrow> world \<Rightarrow> response option \<times> world" where
  "POST_upload sess file env w = respond (upload_try sess file env w)"

section \<open>Password route (\<open>PUT\<close> on the user password endpoint)\<close>

text \<open>The parsed request body; a field that is absent is \<open>None\<close>.\<close>

record password_request =
  currentPassword :: "string option"
  newPassword :: "string option"

definition user_update :: "ident \<Rightarrow> (user_row \<Rightarrow> user_row) \<Rightarrow> world \<Rightarrow> world" where
  "user_update uid f w =
     emit (UserUpdate uid) (w\<lparr>users := (users w)(uid := map_option f (users w uid))\<rparr>)"

text \<open>
  The \<open>try\<close> block of \<open>PUT\<close>, lines 9--48.  \<open>compare\<close> and \<open>hash\<close> are the functions
  of \<open>bcryptjs\<close>; a \<open>findUnique\<close> without an id is rejected by Prisma.
\<close>

definition password_try ::
  "(string \<Rightarrow> string \<Rightarrow> bool) \<Rightarrow> (string \<Rightarrow> nat \<Rightarrow> string) \<Rightarrow>
   session option \<Rightarrow> password_request \<Rightarrow> world \<Rightarrow> response step" where
  "password_try compare hash sess req w =
     (case (case sess of None \<Rightarrow> None | Some se \<Rightarrow> user se) of
        None \<Rightarrow> Respond (json (Message ''Unauthorized'') 401) w
      | Some u \<Rightarrow>
          (case (present (currentPassword req), present (newPassword req)) of
             (Some current, Some new) \<Rightarrow>
               (case user_id u of
                  None \<Rightarrow> Raise w
                | Some uid \<Rightarrow>
                    (case users w uid of
                       None \<Rightarrow> Respond (json (Message ''User not found'') 404) w
                     | Some usr \<Rightarrow>
                         (case present (usr_password usr) of
                            None \<Rightarrow> Respond (json (Message ''User not found'') 404) w
                          | Some stored \<Rightarrow>
                              if \<not> compare current stored then
                                Respond (json (Message ''Current password is incorrect'') 400) w
                              else
                                Respond (json (Message ''Password updated successfully'') 200)
                                  (user_update uid
                                     (\<lambda>r. r\<lparr>usr_password := Some (hash new 12)\<rparr>) w))))
           | _ \<Rightarrow> Respond (json (Message ''All fields are required'') 400) w))"

definition PUT_password ::
  "(string \<Rightarrow> string \<Rightarrow> bool) \<Rightarrow> (string \<Rightarrow> nat \<Rightarrow> string) \<Rightarrow>
   session option \<Rightarrow> password_request \<Rightarrow> world \<Rightarrow> response option \<times> world" where
  "PUT_password compare hash sess req w = respond (password_try compare hash sess req w)"

text \<open>
  Two auxiliary notions for the statements below: the outcome of a turn that ran to its
  end with assistant message \<open>am\<close>, starting from the world \<open>w2\<close> in which the user
  message is already written; and a change of world applied to whatever a step left.
\<close>

definition turn_done ::
  "session_user \<Rightarrow> conversation \<Rightarrow> ChatRequest \<Rightarrow> chat_env \<Rightarrow> message \<Rightarrow> world \<Rightarrow> response step" where
  "turn_done u c req env am w2 =
     Respond (json (ChatResponse (conv_id c) am) 200)
       (conversation_update (conv_id c) (\<lambda>r. r\<lparr>conv_updatedAt := touchedAt env\<rparr>)
          (message_create am (emit (AxiosPost (chat_request u req env)) w2)))"

definition with_world :: "(world \<Rightarrow> world) \<Rightarrow> 'a step \<Rightarrow> 'a step" where
  "with_world g s =
     (case s of
        Continue x w \<Rightarrow> Continue x (g w)
      | Respond r w \<Rightarrow> Respond r (g w)
      | Raise w \<Rightarrow> Raise (g w)
      | Hang w \<Rightarrow> Hang (g w))"

abbreviation set_limits :: "(ident \<times> string \<rightharpoonup> rateLimit) \<Rightarrow> world \<Rightarrow> world" where
  "set_limits rl \<equiv> (\<lambda>w. w\<lparr>rateLimits := rl\<rparr>)"

section \<open>Sample data for the closed instances\<close>

definition empty_world :: world where
  "empty_world =
     \<lparr>rateLimits = Map.empty, conversations = [], messages = [],
      documents = [], users = Map.empty, dirs = {}, files = Map.empty, effects = []\<rparr>"

definition alice :: "session option" where
  "alice = Some \<lparr>user = Some \<lparr>user_id = Some ''u1''\<rparr>\<rparr>"

definition bob :: "session option" where
  "bob = Some \<lparr>user = Some \<lparr>user_id = Some ''u2''\<rparr>\<rparr>"

definition sample_env :: "backend \<Rightarrow> chat_env" where
  "sample_env b =
     \<lparr>BACKEND_API_URL = None, chat_backend = b,
      conversationStamp = \<lparr>new_id = ''c9'', stamped_at = 6000\<rparr>,
      userMessageStamp = \<lparr>new_id = ''m1'', stamped_at = 6001\<rparr>,
      assistantMessageStamp = \<lparr>new_id = ''m2'', stamped_at = 6002\<rparr>,
      touchedAt = 6003\<rparr>"

definition sample_answer :: jsval where
  "sample_answer = JObj [(''content'', JStr ''hello''), (''sources'', JArr [])]"

definition counter_at :: "int \<Rightarrow> timestamp \<Rightarrow> world" where
  "counter_at n t =
     empty_world\<lparr>rateLimits :=
       [(''u1'', ''chat'') \<mapsto>
          \<lparr>rl_userId = ''u1'', rl_endpoint = ''chat'', rl_count = n, rl_windowStart = t\<rparr>]\<rparr>"

text \<open>One conversation, \<open>c1\<close>, owned by \<open>u1\<close> and last touched at 6003.\<close>

definition one_conversation :: world where
  "one_conversation =
     empty_world\<lparr>conversations :=
       [\<lparr>conv_id = ''c1'', conv_userId = ''u1'', conv_title = ''first'',
         conv_createdAt = 1000, conv_updatedAt = 6003\<rparr>]\<rparr>"

definition sample_request :: axios_request where
  "sample_request =
     \<lparr>ax_url = ''http://localhost:8000/api/chat'',
      ax_data = JObj [(''userId'', JStr ''u1''), (''message'', JStr ''hi'')],
      ax_timeout = None\<rparr>"

definition sample_file :: upload_file where
  "sample_file =
     \<lparr>file_name = ''a.txt'', file_type = ''text/plain'', file_size = 2, file_bytes = [104, 105]\<rparr>"

definition slash_join :: "string \<Rightarrow> string \<Rightarrow> string" where
  "slash_join a b = a @ ''/'' @ b"

definition parent_dir :: "string \<Rightarrow> string" where
  "parent_dir p = rev (drop 1 (dropWhile (\<lambda>c. c \<noteq> CHR ''/'') (rev p)))"

definition sample_upload_env :: "backend \<Rightarrow> upload_env" where
  "sample_upload_env b =
     \<lparr>up_BACKEND_API_URL = Some ''http://backend'', upload_backend = b, cwd = ''/app'',
      pathJoin = slash_join, dirname = parent_dir, dateNow = 42,
      documentStamp = \<lparr>new_id = ''d1'', stamped_at = 43\<rparr>, faulty = (\<lambda>op. False)\<rparr>"

definition nested_file :: upload_file where
  "nested_file =
     \<lparr>file_name = ''dir/a.txt'', file_type = ''text/plain'', file_size = 2,
      file_bytes = [104, 105]\<rparr>"

text \<open>One user, \<open>u1\<close>, whose stored hash is \<open>H(secret)\<close> under the toy functions below.\<close>

definition one_user :: world where
  "one_user =
     empty_world\<lparr>users := [''u1'' \<mapsto> \<lparr>usr_id = ''u1'', usr_password = Some ''H(secret)''\<rparr>]\<rparr>"

definition toy_hash :: "string \<Rightarrow> nat \<Rightarrow> string" where
  "toy_hash s cost = ''H('' @ s @ '')''"

definition toy_compare :: "string \<Rightarrow> string \<Rightarrow> bool" where
  "toy_compare s h = (h = ''H('' @ s @ '')'')"

definition new_chat :: ChatRequest where
  "new_chat = \<lparr>req_conversationId = None, req_message = ''hi''\<rparr>"

definition chat_in :: "ident \<Rightarrow> ChatRequest" where
  "chat_in cid = \<lparr>req_conversationId = Some cid, req_message = ''hi''\<rparr>"

section \<open>Properties of the rate limiter\<close>

lemma rateLimits_emit [simp]: "rateLimits (emit ev w) = rateLimits w"
  by (simp add: emit_def)

lemma admitted_active_bound:
  assumes "session_user_id sess = Some u"
    and "rateLimits w (u, e) = Some r"
    and "\<forall>t \<in> set ts. \<not> rl_windowStart r < t - RATE_LIMIT_WINDOW"
  shows "int (admitted sess e ts w) \<le> max 0 (MAX_REQUESTS - rl_count r)"
  using assms
proof (induction ts arbitrary: w r)
  case Nil
  then show ?case by simp
next
  case (Cons t ts)
  have act: "\<not> rl_windowStart r < t - RATE_LIMIT_WINDOW"
    using Cons.prems(3) by simp
  have rest: "\<forall>t \<in> set ts. \<not> rl_windowStart r < t - RATE_LIMIT_WINDOW"
    using Cons.prems(3) by simp
  show ?case
  proof (cases "rl_count r \<ge> MAX_REQUESTS")
    case True
    then have step: "checkRateLimit sess e t w = (False, w)"
      using Cons.prems(1,2) act by (simp add: checkRateLimit_def)
    have "int (admitted sess e ts w) \<le> max 0 (MAX_REQUESTS - rl_count r)"
      using Cons.IH [OF Cons.prems(1) Cons.prems(2) rest] .
    then show ?thesis using step by simp
  next
    case False
    define w' where
      "w' = rateLimit_update (u, e) (\<lambda>r. r\<lparr>rl_count := rl_count r + 1\<rparr>) w"
    define r' where "r' = r\<lparr>rl_count := rl_count r + 1\<rparr>"
    have step: "checkRateLimit sess e t w = (True, w')"
      using Cons.prems(1,2) act False by (simp add: checkRateLimit_def w'_def)
    have row: "rateLimits w' (u, e) = Some r'"
      using Cons.prems(2) by (simp add: w'_def r'_def rateLimit_update_def)
    have rest': "\<forall>t \<in> set ts. \<not> rl_windowStart r' < t - RATE_LIMIT_WINDOW"
      using rest by (simp add: r'_def)
    have "int (admitted sess e ts w') \<le> max 0 (MAX_REQUESTS - rl_count r')"
      using Cons.IH [OF Cons.prems(1) row rest'] .
    then show ?thesis using step False by (simp add: r'_def)
  qed
qed

lemma admitted_fresh_window:
  assumes "session_user_id sess = Some u"
    and "checkRateLimit sess e t0 w = (True, w')"
    and "rateLimits w' (u, e) = Some r"
    and "rl_count r = 1" and "rl_windowStart r = t0"
    and "\<forall>t \<in> set ts. t - t0 \<le> RATE_LIMIT_WINDOW"
  shows "admitted sess e (t0 # ts) w \<le> 100"
proof -
  have "\<forall>t \<in> set ts. \<not> rl_windowStart r < t - RATE_LIMIT_WINDOW"
    using assms(5,6) by auto
  then have "int (admitted sess e ts w') \<le> max 0 (MAX_REQUESTS - rl_count r)"
    using admitted_active_bound [OF assms(1) assms(3)] by blast
  then have "admitted sess e ts w' \<le> 99"
    using assms(4) by (simp add: MAX_REQUESTS_def)
  then show ?thesis using assms(2) by simp
qed

text \<open>
  Calls that do not overlap.  For a resolved subject and an endpoint whose stored
  counter is in an active window (the clock reading is at most \<open>RATE_LIMIT_WINDOW\<close> past
  \<open>windowStart\<close>): with \<open>count \<ge> MAX_REQUESTS\<close> the call returns false and leaves the
  store as it was; an admitted call leaves the counter with \<open>count\<close> raised by exactly one
  and nothing else changed; further calls inside that window, one after another, are
  admitted at most \<open>MAX_REQUESTS - count\<close> times, and at most \<open>MAX_REQUESTS = 100\<close> times
  counted from the call that opens the window.
\<close>

lemma checkRateLimit_window_cap:
  assumes "session_user_id sess = Some u"
  shows
    "(rateLimits w (u, e) = Some r \<and> now - rl_windowStart r \<le> RATE_LIMIT_WINDOW
        \<and> MAX_REQUESTS \<le> rl_count r
      \<longrightarrow> checkRateLimit sess e now w = (False, w))
   \<and> (rateLimits w (u, e) = Some r \<and> now - rl_windowStart r \<le> RATE_LIMIT_WINDOW
        \<and> fst (checkRateLimit sess e now w)
      \<longrightarrow> rateLimits (snd (checkRateLimit sess e now w))
            = (rateLimits w)((u, e) \<mapsto> r\<lparr>rl_count := rl_count r + 1\<rparr>))
   \<and> (rateLimits w (u, e) = Some r
        \<and> (\<forall>t \<in> set ts. t - rl_windowStart r \<le> RATE_LIMIT_WINDOW)
      \<longrightarrow> int (admitted sess e ts w) \<le> max 0 (MAX_REQUESTS - rl_count r))
   \<and> ((case rateLimits w (u, e) of
          None \<Rightarrow> True
        | Some r0 \<Rightarrow> t0 - rl_windowStart r0 > RATE_LIMIT_WINDOW)
        \<and> (\<forall>t \<in> set ts. t - t0 \<le> RATE_LIMIT_WINDOW)
      \<longrightarrow> admitted sess e (t0 # ts) w \<le> 100 \<and> MAX_REQUESTS = 100)"
proof (intro conjI impI)
  assume "rateLimits w (u, e) = Some r \<and> now - rl_windowStart r \<le> RATE_LIMIT_WINDOW
    \<and> MAX_REQUESTS \<le> rl_count r"
  then show "checkRateLimit sess e now w = (False, w)"
    using assms by (simp add: checkRateLimit_def)
next
  assume h: "rateLimits w (u, e) = Some r \<and> now - rl_windowStart r \<le> RATE_LIMIT_WINDOW
    \<and> fst (checkRateLimit sess e now w)"
  then have "\<not> MAX_REQUESTS \<le> rl_count r"
    using assms by (auto simp: checkRateLimit_def)
  then show "rateLimits (snd (checkRateLimit sess e now w))
      = (rateLimits w)((u, e) \<mapsto> r\<lparr>rl_count := rl_count r + 1\<rparr>)"
    using assms h by (simp add: checkRateLimit_def rateLimit_update_def)
next
  assume h: "rateLimits w (u, e) = Some r
    \<and> (\<forall>t \<in> set ts. t - rl_windowStart r \<le> RATE_LIMIT_WINDOW)"
  then have "\<forall>t \<in> set ts. \<not> rl_windowStart r < t - RATE_LIMIT_WINDOW"
    by auto
  then show "int (admitted sess e ts w) \<le> max 0 (MAX_REQUESTS - rl_count r)"
    using admitted_active_bound [OF assms] h by blast
next
  assume h: "(case rateLimits w (u, e) of
          None \<Rightarrow> True
        | Some r0 \<Rightarrow> t0 - rl_windowStart r0 > RATE_LIMIT_WINDOW)
        \<and> (\<forall>t \<in> set ts. t - t0 \<le> RATE_LIMIT_WINDOW)"
  define r1 where
    "r1 = \<lparr>rl_userId = u, rl_endpoint = e, rl_count = 1, rl_windowStart = t0\<rparr>"
  show "admitted sess e (t0 # ts) w \<le> 100"
  proof (cases "rateLimits w (u, e)")
    case None
    define w' where "w' = rateLimit_create r1 w"
    have "checkRateLimit sess e t0 w = (True, w')"
      using assms None by (simp add: checkRateLimit_def w'_def r1_def)
    moreover have "rateLimits w' (u, e) = Some r1"
      by (simp add: w'_def rateLimit_create_def r1_def)
    ultimately show ?thesis
      using admitted_fresh_window [OF assms, of e t0 w w' r1 ts] h
      by (simp add: r1_def)
  next
    case (Some r0)
    define w' where
      "w' = rateLimit_update (u, e) (\<lambda>r. r\<lparr>rl_count := 1, rl_windowStart := t0\<rparr>) w"
    define r2 where "r2 = r0\<lparr>rl_count := 1, rl_windowStart := t0\<rparr>"
    have "checkRateLimit sess e t0 w = (True, w')"
      using assms Some h by (simp add: checkRateLimit_def w'_def)
    moreover have "rateLimits w' (u, e) = Some r2"
      using Some by (simp add: w'_def rateLimit_update_def r2_def)
    ultimately show ?thesis
      using admitted_fresh_window [OF assms, of e t0 w w' r2 ts] h
      by (simp add: r2_def)
  qed
next
  show "MAX_REQUESTS = 100" by (simp add: MAX_REQUESTS_def)
qed

lemma checkRateLimit_window_cap_example:
  "session_user_id alice = Some ''u1''
   \<and> rateLimits (counter_at 100 0) (''u1'', ''chat'')
       = Some \<lparr>rl_userId = ''u1'', rl_endpoint = ''chat'', rl_count = 100, rl_windowStart = 0\<rparr>
   \<and> 5000 - 0 \<le> RATE_LIMIT_WINDOW \<and> MAX_REQUESTS \<le> 100
   \<and> checkRateLimit alice ''chat'' 5000 (counter_at 100 0) = (False, counter_at 100 0)
   \<and> fst (checkRateLimit alice ''chat'' 5000 (counter_at 7 0))
   \<and> rateLimits (snd (checkRateLimit alice ''chat'' 5000 (counter_at 7 0)))
       = (rateLimits (counter_at 7 0))((''u1'', ''chat'') \<mapsto>
            \<lparr>rl_userId = ''u1'', rl_endpoint = ''chat'', rl_count = 8, rl_windowStart = 0\<rparr>)
   \<and> int (admitted alice ''chat'' [10, 20, 30] (counter_at 98 0)) \<le> 2
   \<and> admitted alice ''chat'' [0, 10, 900000] empty_world \<le> 100"
proof -
  have s: "session_user_id alice = Some ''u1''"
    by (simp add: session_user_id_def alice_def)
  have r100: "rateLimits (counter_at 100 0) (''u1'', ''chat'')
       = Some \<lparr>rl_userId = ''u1'', rl_endpoint = ''chat'', rl_count = 100, rl_windowStart = 0\<rparr>"
    by (simp add: counter_at_def empty_world_def)
  have r7: "rateLimits (counter_at 7 0) (''u1'', ''chat'')
       = Some \<lparr>rl_userId = ''u1'', rl_endpoint = ''chat'', rl_count = 7, rl_windowStart = 0\<rparr>"
    by (simp add: counter_at_def empty_world_def)
  have r98: "rateLimits (counter_at 98 0) (''u1'', ''chat'')
       = Some \<lparr>rl_userId = ''u1'', rl_endpoint = ''chat'', rl_count = 98, rl_windowStart = 0\<rparr>"
    by (simp add: counter_at_def empty_world_def)
  have adm: "fst (checkRateLimit alice ''chat'' 5000 (counter_at 7 0))"
    using s r7
    by (simp add: checkRateLimit_def RATE_LIMIT_WINDOW_def MAX_REQUESTS_def)
  have none: "rateLimits empty_world (''u1'', ''chat'') = None"
    by (simp add: empty_world_def)
  note a = checkRateLimit_window_cap [OF s, where w = "counter_at 100 0" and e = "''chat''"
      and now = 5000
      and r = "\<lparr>rl_userId = ''u1'', rl_endpoint = ''chat'', rl_count = 100, rl_windowStart = 0\<rparr>"]
  note b = checkRateLimit_window_cap [OF s, where w = "counter_at 7 0" and e = "''chat''"
      and now = 5000
      and r = "\<lparr>rl_userId = ''u1'', rl_endpoint = ''chat'', rl_count = 7, rl_windowStart = 0\<rparr>"]
  note c = checkRateLimit_window_cap [OF s, where w = "counter_at 98 0" and e = "''chat''"
      and ts = "[10, 20, 30]"
      and r = "\<lparr>rl_userId = ''u1'', rl_endpoint = ''chat'', rl_count = 98, rl_windowStart = 0\<rparr>"]
  note d = checkRateLimit_window_cap [OF s, where w = empty_world and e = "''chat''"
      and ts = "[10, 900000]" and ?t0.0 = 0]
  have 1: "checkRateLimit alice ''chat'' 5000 (counter_at 100 0) = (False, counter_at 100 0)"
    using a r100 by (simp add: RATE_LIMIT_WINDOW_def MAX_REQUESTS_def)
  have 2: "rateLimits (snd (checkRateLimit alice ''chat'' 5000 (counter_at 7 0)))
       = (rateLimits (counter_at 7 0))((''u1'', ''chat'') \<mapsto>
            \<lparr>rl_userId = ''u1'', rl_endpoint = ''chat'', rl_count = 8, rl_windowStart = 0\<rparr>)"
    using b r7 adm by (simp add: RATE_LIMIT_WINDOW_def)
  have 3: "int (admitted alice ''chat'' [10, 20, 30] (counter_at 98 0)) \<le> 2"
    using c r98 by (simp add: RATE_LIMIT_WINDOW_def MAX_REQUESTS_def)
  have 4: "admitted alice ''chat'' [0, 10, 900000] empty_world \<le> 100"
    using d none by (simp add: RATE_LIMIT_WINDOW_def)
  show ?thesis
    using s r100 adm 1 2 3 4 by (simp add: RATE_LIMIT_WINDOW_def MAX_REQUESTS_def)
qed

text \<open>If nothing comes between its read and its write, the two steps are the call.\<close>

lemma checkRateLimit_in_two_steps:
  "checkRateLimit_write endpoint now (checkRateLimit_read sess endpoint w) w
     = (Some (fst (checkRateLimit sess endpoint now w)), snd (checkRateLimit sess endpoint now w))"
  by (simp add: checkRateLimit_write_def checkRateLimit_read_def checkRateLimit_def Let_def
      split: option.splits)

text \<open>
  Claim C2, on the code.  The read of the counter and the write that follows it are two
  awaited store operations with nothing making them one.  With the counter at 99 in an
  active window (99 calls admitted so far), two calls for the same subject and endpoint
  overlap: both read 99, both return true, and the counter ends at 101.  The window has
  seen 101 admissions, one more than \<open>MAX_REQUESTS\<close>, and the second call was admitted
  against a stored count of 100.
\<close>

theorem checkRateLimit_overlap_exceeds_cap:
  "rateLimits (counter_at 99 0) (''u1'', ''chat'')
       = Some \<lparr>rl_userId = ''u1'', rl_endpoint = ''chat'', rl_count = 99, rl_windowStart = 0\<rparr>
   \<and> 5000 - 0 < RATE_LIMIT_WINDOW \<and> 5001 - 0 < RATE_LIMIT_WINDOW \<and> MAX_REQUESTS = 100
   \<and> fst (checkRateLimit_overlapped alice ''chat'' 5000 5001 (counter_at 99 0)) = Some True
   \<and> fst (snd (checkRateLimit_overlapped alice ''chat'' 5000 5001 (counter_at 99 0)))
       = Some True
   \<and> rateLimits (snd (snd (checkRateLimit_overlapped alice ''chat'' 5000 5001
         (counter_at 99 0)))) (''u1'', ''chat'')
       = Some \<lparr>rl_userId = ''u1'', rl_endpoint = ''chat'', rl_count = 101,
               rl_windowStart = 0\<rparr>"
  by (simp add: checkRateLimit_overlapped_def checkRateLimit_read_def checkRateLimit_write_def
      rateLimit_update_def emit_def session_user_id_def alice_def counter_at_def
      empty_world_def RATE_LIMIT_WINDOW_def MAX_REQUESTS_def Let_def)

text \<open>
  Claim C3, as stated, at the boundary: a counter whose window started exactly
  \<open>RATE_LIMIT_WINDOW\<close> milliseconds ago and that stands at 100 is still denied, and
  nothing is reset.
\<close>

theorem checkRateLimit_boundary_not_reset:
  "rateLimits (counter_at 100 0) (''u1'', ''chat'')
       = Some \<lparr>rl_userId = ''u1'', rl_endpoint = ''chat'', rl_count = 100, rl_windowStart = 0\<rparr>
   \<and> 900000 - 0 \<ge> RATE_LIMIT_WINDOW
   \<and> checkRateLimit alice ''chat'' 900000 (counter_at 100 0) = (False, counter_at 100 0)"
  by (simp add: checkRateLimit_def session_user_id_def alice_def counter_at_def
      empty_world_def RATE_LIMIT_WINDOW_def MAX_REQUESTS_def)

text \<open>
  Claim C3, amended.  When the stored counter's window started more than
  \<open>RATE_LIMIT_WINDOW\<close> (15 minutes) before the clock reading, the call returns true and
  the counter becomes \<open>count = 1\<close>, \<open>windowStart = now\<close>, whatever the count was; no
  other counter changes.
\<close>

theorem checkRateLimit_expired_resets:
  assumes "session_user_id sess = Some u"
    and "rateLimits w (u, e) = Some r"
    and "now - rl_windowStart r > RATE_LIMIT_WINDOW"
  shows "fst (checkRateLimit sess e now w)
    \<and> rateLimits (snd (checkRateLimit sess e now w))
        = (rateLimits w)((u, e) \<mapsto> r\<lparr>rl_count := 1, rl_windowStart := now\<rparr>)"
  using assms by (simp add: checkRateLimit_def rateLimit_update_def)

theorem checkRateLimit_expired_resets_witness:
  "session_user_id alice = Some ''u1''
   \<and> rateLimits (counter_at 100 0) (''u1'', ''chat'')
       = Some \<lparr>rl_userId = ''u1'', rl_endpoint = ''chat'', rl_count = 100, rl_windowStart = 0\<rparr>
   \<and> 900001 - 0 > RATE_LIMIT_WINDOW
   \<and> fst (checkRateLimit alice ''chat'' 900001 (counter_at 100 0))
   \<and> rateLimits (snd (checkRateLimit alice ''chat'' 900001 (counter_at 100 0)))
        (''u1'', ''chat'')
       = Some \<lparr>rl_userId = ''u1'', rl_endpoint = ''chat'', rl_count = 1,
               rl_windowStart = 900001\<rparr>"
proof -
  have s: "session_user_id alice = Some ''u1''"
    by (simp add: session_user_id_def alice_def)
  have r: "rateLimits (counter_at 100 0) (''u1'', ''chat'')
       = Some \<lparr>rl_userId = ''u1'', rl_endpoint = ''chat'', rl_count = 100, rl_windowStart = 0\<rparr>"
    by (simp add: counter_at_def empty_world_def)
  have t: "900001 - rl_windowStart \<lparr>rl_userId = ''u1'', rl_endpoint = ''chat'',
      rl_count = 100, rl_windowStart = 0\<rparr> > RATE_LIMIT_WINDOW"
    by (simp add: RATE_LIMIT_WINDOW_def)
  show ?thesis
    using checkRateLimit_expired_resets [OF s r t] s r
    by (simp add: RATE_LIMIT_WINDOW_def)
qed

text \<open>
  Claim C7.  When no subject can be resolved from the session (no session, no user, no
  id, or an empty id), \<open>checkRateLimit\<close> returns false for every endpoint, as an
  ordinary return value, and the store is left as it was.
\<close>

theorem checkRateLimit_unauthenticated:
  assumes "session_user_id sess = None"
  shows "checkRateLimit sess e now w = (False, w)"
  using assms by (simp add: checkRateLimit_def)

theorem checkRateLimit_unauthenticated_witness:
  "session_user_id None = None
   \<and> session_user_id (Some \<lparr>user = None\<rparr>) = None
   \<and> session_user_id (Some \<lparr>user = Some \<lparr>user_id = None\<rparr>\<rparr>) = None
   \<and> checkRateLimit None ''chat'' 5000 (counter_at 3 0) = (False, counter_at 3 0)
   \<and> checkRateLimit (Some \<lparr>user = None\<rparr>) ''upload'' 5000 empty_world = (False, empty_world)
   \<and> checkRateLimit (Some \<lparr>user = Some \<lparr>user_id = None\<rparr>\<rparr>) ''chat'' 1 empty_world
       = (False, empty_world)"
proof -
  have a: "session_user_id None = None"
    by (simp add: session_user_id_def)
  have b: "session_user_id (Some \<lparr>user = None\<rparr>) = None"
    by (simp add: session_user_id_def)
  have c: "session_user_id (Some \<lparr>user = Some \<lparr>user_id = None\<rparr>\<rparr>) = None"
    by (simp add: session_user_id_def)
  show ?thesis
    using a b c
      checkRateLimit_unauthenticated [OF a, of "''chat''" 5000 "counter_at 3 0"]
      checkRateLimit_unauthenticated [OF b, of "''upload''" 5000 empty_world]
      checkRateLimit_unauthenticated [OF c, of "''chat''" 1 empty_world]
    by simp
qed

section \<open>Properties of the chat route\<close>

subsection \<open>The steps of the handler\<close>

lemma and_then_simps [simp]:
  "and_then (Continue x w) f = f x w"
  "and_then (Respond r w) f = Respond r w"
  "and_then (Raise w) f = Raise w"
  "and_then (Hang w) f = Hang w"
  by (simp_all add: and_then_def)

lemma issued_same [simp]: "issued w w = []"
  by (simp add: issued_def)

lemma with_world_simps [simp]:
  "with_world g (Continue x w) = Continue x (g w)"
  "with_world g (Respond r w) = Respond r (g w)"
  "with_world g (Raise w) = Raise (g w)"
  "with_world g (Hang w) = Hang (g w)"
  by (simp_all add: with_world_def)

lemma and_then_with_world:
  assumes "\<And>x w. f x (g w) = with_world g (f x w)"
  shows "and_then (with_world g s) f = with_world g (and_then s f)"
  using assms by (cases s) simp_all

lemma assistant_message_sel [simp]:
  "msg_role (assistant_message c reply srcs env) = RoleAssistant"
  "msg_conversationId (assistant_message c reply srcs env) = conv_id c"
  "msg_content (assistant_message c reply srcs env) = reply"
  "msg_sources (assistant_message c reply srcs env) = Some srcs"
  by (simp_all add: assistant_message_def)

lemma user_message_sel [simp]:
  "msg_role (user_message c req env) = RoleUser"
  "msg_conversationId (user_message c req env) = conv_id c"
  "msg_content (user_message c req env) = req_message req"
  by (simp_all add: user_message_def)

lemma resolve_conversation_Continue:
  assumes "resolve_conversation u req env w = Continue co w1"
  shows "(\<exists>cid. req_conversationId req = Some cid \<and> cid \<noteq> []
            \<and> co = conversation_findUnique cid w
            \<and> map_option conv_userId co = user_id u \<and> w1 = w)
       \<or> ((req_conversationId req = None \<or> req_conversationId req = Some [])
            \<and> (\<exists>uid. user_id u = Some uid \<and> co = Some (new_conversation uid req env)
                  \<and> w1 = conversation_create (new_conversation uid req env) w))"
  using assms
  by (auto simp: resolve_conversation_def present_def Let_def split: option.splits if_splits)

lemma resolve_conversation_other:
  assumes "\<forall>co w1. resolve_conversation u req env w \<noteq> Continue co w1"
  shows "resolve_conversation u req env w = Respond (json (Message ''Forbidden'') 403) w
       \<or> resolve_conversation u req env w = Raise w"
  using assms
  by (auto simp: resolve_conversation_def present_def Let_def split: option.splits if_splits)

lemma resolved_before:
  assumes "resolve_conversation u req env w = Continue (Some c) w1"
  shows "c \<in> set (conversations w1) \<and> messages w1 = messages w
    \<and> ((\<exists>cid. req_conversationId req = Some cid \<and> cid \<noteq> []
            \<and> conversation_findUnique cid w = Some c \<and> w1 = w)
       \<or> ((req_conversationId req = None \<or> req_conversationId req = Some [])
            \<and> (\<exists>uid. user_id u = Some uid \<and> c = new_conversation uid req env)
            \<and> w1 = conversation_create c w))"
proof -
  from resolve_conversation_Continue [OF assms]
  consider
    (existing) cid where "req_conversationId req = Some cid" "cid \<noteq> []"
      "Some c = conversation_findUnique cid w" "w1 = w"
  | (created) uid where "req_conversationId req = None \<or> req_conversationId req = Some []"
      "user_id u = Some uid" "c = new_conversation uid req env"
      "w1 = conversation_create (new_conversation uid req env) w"
    by blast
  then show ?thesis
  proof cases
    case existing
    have "find (\<lambda>c. conv_id c = cid) (conversations w) = Some c"
      using existing(3) by (simp add: conversation_findUnique_def)
    then have "c \<in> set (conversations w)"
      by (auto simp: find_Some_iff)
    then show ?thesis using existing by auto
  next
    case created
    have "c \<in> set (conversations w1) \<and> messages w1 = messages w"
      using created by (simp add: conversation_create_def emit_def)
    then show ?thesis using created by blast
  qed
qed

lemma effects_resolved:
  assumes "resolve_conversation u req env w = Continue (Some c) w1"
  shows "effects w1 = effects w \<or> effects w1 = effects w @ [ConversationCreate (conv_id c)]"
  using resolved_before [OF assms] by (auto simp: conversation_create_def emit_def)

lemma chat_try_resolved:
  assumes "(case sess of None \<Rightarrow> None | Some se \<Rightarrow> user se) = Some u"
    and "req_message req \<noteq> []"
    and "resolve_conversation u req env w = Continue (Some c) w1"
  shows "chat_try sess req env w =
    complete_turn u c req env (message_create (user_message c req env) w1)"
  using assms
  by (simp add: chat_try_def persist_user_message_def complete_turn_def)

lemma chat_try_unresolved:
  assumes "\<forall>u c w1. \<not> ((case sess of None \<Rightarrow> None | Some se \<Rightarrow> user se) = Some u
     \<and> req_message req \<noteq> [] \<and> resolve_conversation u req env w = Continue (Some c) w1)"
  shows "\<exists>r. POST_chat sess req env w = (Some r, w) \<and> res_status r \<noteq> 200"
proof (cases "case sess of None \<Rightarrow> None | Some se \<Rightarrow> user se")
  case None
  then show ?thesis by (simp add: POST_chat_def chat_try_def respond_def json_def)
next
  case (Some u)
  show ?thesis
  proof (cases "req_message req = []")
    case True
    then show ?thesis using Some by (simp add: POST_chat_def chat_try_def respond_def json_def)
  next
    case False
    have nc: "\<forall>c w1. resolve_conversation u req env w \<noteq> Continue (Some c) w1"
      using assms Some False by simp
    show ?thesis
    proof (cases "\<exists>w1. resolve_conversation u req env w = Continue None w1")
      case True
      then obtain w1 where r: "resolve_conversation u req env w = Continue None w1" by blast
      from resolve_conversation_Continue [OF r] have "w1 = w" by auto
      then show ?thesis using Some False r
        by (simp add: POST_chat_def chat_try_def respond_def json_def persist_user_message_def)
    next
      case F2: False
      then have "\<forall>co w1. resolve_conversation u req env w \<noteq> Continue co w1"
        using nc by (metis option.exhaust)
      from resolve_conversation_other [OF this] show ?thesis
        using Some False
        by (auto simp: POST_chat_def chat_try_def respond_def json_def)
    qed
  qed
qed

lemma persist_assistant_message_cases:
  "persist_assistant_message c d env w3 = Raise w3
   \<or> (\<exists>reply srcs. persist_assistant_message c d env w3
          = Continue (assistant_message c reply srcs env)
              (message_create (assistant_message c reply srcs env) w3))"
  by (auto simp: persist_assistant_message_def Let_def split: option.splits jsval.splits)

lemma persist_assistant_message_fallback:
  "persist_assistant_message c fallbackResponse env w3
     = Continue (assistant_message c apology (JArr []) env)
         (message_create (assistant_message c apology (JArr []) env) w3)"
  by (simp add: persist_assistant_message_def fallbackResponse_def Let_def)

lemma complete_turn_cases:
  "(chat_backend env = Silent
      \<and> complete_turn u c req env w2 = Hang (emit (AxiosPost (chat_request u req env)) w2))
   \<or> ((\<exists>d. chat_backend env = Answers d)
      \<and> complete_turn u c req env w2 = Raise (emit (AxiosPost (chat_request u req env)) w2))
   \<or> ((\<exists>d. chat_backend env = Answers d)
      \<and> (\<exists>reply srcs. complete_turn u c req env w2
            = turn_done u c req env (assistant_message c reply srcs env) w2))
   \<or> ((\<exists>e. chat_backend env = Fails e)
      \<and> complete_turn u c req env w2
            = turn_done u c req env (assistant_message c apology (JArr []) env) w2)"
proof (cases "chat_backend env")
  case (Answers d)
  then have "invoke_backend u req env w2 = Continue d (emit (AxiosPost (chat_request u req env)) w2)"
    by (simp add: invoke_backend_def axios_post_def)
  then have ct: "complete_turn u c req env w2
      = and_then (persist_assistant_message c d env (emit (AxiosPost (chat_request u req env)) w2))
          (\<lambda>assistantMessage w4.
             Respond (json (ChatResponse (conv_id c) assistantMessage) 200)
               (conversation_update (conv_id c)
                  (\<lambda>r. r\<lparr>conv_updatedAt := touchedAt env\<rparr>) w4))"
    by (simp add: complete_turn_def)
  from persist_assistant_message_cases [of c d env "emit (AxiosPost (chat_request u req env)) w2"]
  show ?thesis
  proof
    assume "persist_assistant_message c d env (emit (AxiosPost (chat_request u req env)) w2)
      = Raise (emit (AxiosPost (chat_request u req env)) w2)"
    then show ?thesis using ct Answers by simp
  next
    assume "\<exists>reply srcs. persist_assistant_message c d env
        (emit (AxiosPost (chat_request u req env)) w2)
          = Continue (assistant_message c reply srcs env)
              (message_create (assistant_message c reply srcs env)
                 (emit (AxiosPost (chat_request u req env)) w2))"
    then obtain reply srcs where "persist_assistant_message c d env
        (emit (AxiosPost (chat_request u req env)) w2)
          = Continue (assistant_message c reply srcs env)
              (message_create (assistant_message c reply srcs env)
                 (emit (AxiosPost (chat_request u req env)) w2))"
      by blast
    then have "complete_turn u c req env w2
        = turn_done u c req env (assistant_message c reply srcs env) w2"
      using ct by (simp add: turn_done_def)
    then show ?thesis using Answers by blast
  qed
next
  case (Fails e)
  then have "invoke_backend u req env w2
      = Continue fallbackResponse (emit (AxiosPost (chat_request u req env)) w2)"
    by (simp add: invoke_backend_def axios_post_def)
  then show ?thesis
    using Fails by (simp add: complete_turn_def turn_done_def persist_assistant_message_fallback)
next
  case Silent
  then have "invoke_backend u req env w2 = Hang (emit (AxiosPost (chat_request u req env)) w2)"
    by (simp add: invoke_backend_def axios_post_def chat_request_def)
  then show ?thesis using Silent by (simp add: complete_turn_def)
qed


lemma turn_done_world:
  "turn_done u c req env am (message_create um w1) = Respond r w' \<Longrightarrow>
     r = json (ChatResponse (conv_id c) am) 200
   \<and> messages w' = messages w1 @ [um, am]
   \<and> effects w' = effects w1 @ [MessageCreate (msg_conversationId um) (msg_role um),
        AxiosPost (chat_request u req env),
        MessageCreate (msg_conversationId am) (msg_role am), ConversationUpdate (conv_id c)]
   \<and> conversations w' = map (\<lambda>x. if conv_id x = conv_id c
          then x\<lparr>conv_updatedAt := touchedAt env\<rparr> else x) (conversations w1)
   \<and> rateLimits w' = rateLimits w1"
  by (auto simp: turn_done_def conversation_update_def message_create_def emit_def)

lemma complete_turn_200:
  assumes "respond (complete_turn u c req env w2) = (Some r, w')" and "res_status r = 200"
  shows "\<exists>am. msg_role am = RoleAssistant \<and> msg_conversationId am = conv_id c
      \<and> complete_turn u c req env w2 = turn_done u c req env am w2"
proof -
  consider
    (hang) "complete_turn u c req env w2 = Hang (emit (AxiosPost (chat_request u req env)) w2)"
  | (raised) "complete_turn u c req env w2 = Raise (emit (AxiosPost (chat_request u req env)) w2)"
  | (finished) am where "msg_role am = RoleAssistant" "msg_conversationId am = conv_id c"
      "complete_turn u c req env w2 = turn_done u c req env am w2"
    using complete_turn_cases [of env u c req w2] assistant_message_sel(1,2)
    by metis
  then show ?thesis
  proof cases
    case hang
    then show ?thesis using assms by (simp add: respond_def)
  next
    case raised
    with raised show ?thesis using assms by (auto simp: respond_def json_def)
  next
    case finished
    then show ?thesis by blast
  qed
qed

lemma chat_reached:
  assumes "AxiosPost rq \<in> set (issued w (snd (POST_chat sess req env w)))"
  shows "\<exists>u c w1. (case sess of None \<Rightarrow> None | Some se \<Rightarrow> user se) = Some u
     \<and> req_message req \<noteq> [] \<and> resolve_conversation u req env w = Continue (Some c) w1"
proof (rule ccontr)
  assume "\<not> ?thesis"
  then have "\<exists>r. POST_chat sess req env w = (Some r, w) \<and> res_status r \<noteq> 200"
    using chat_try_unresolved [of sess req env w] by blast
  then show False using assms by auto
qed

lemma chat_resolved_outcome:
  assumes u: "(case sess of None \<Rightarrow> None | Some se \<Rightarrow> user se) = Some u"
    and m: "req_message req \<noteq> []"
    and rc: "resolve_conversation u req env w = Continue (Some c) w1"
  shows "\<exists>w' post. snd (POST_chat sess req env w) = w'
     \<and> effects w' = effects w1 @ [MessageCreate (conv_id c) RoleUser,
           AxiosPost (chat_request u req env)] @ post
     \<and> (\<forall>rq. AxiosPost rq \<notin> set post)
     \<and> (fst (POST_chat sess req env w) = None \<longleftrightarrow> chat_backend env = Silent)"
proof -
  let ?w2 = "message_create (user_message c req env) w1"
  let ?w3 = "emit (AxiosPost (chat_request u req env)) ?w2"
  have ct: "chat_try sess req env w = complete_turn u c req env ?w2"
    using chat_try_resolved [OF u m rc] .
  have e3: "effects ?w3 = effects w1 @ [MessageCreate (conv_id c) RoleUser,
           AxiosPost (chat_request u req env)]"
    by (simp add: emit_def message_create_def)
  consider
    (hang) "chat_backend env = Silent" "complete_turn u c req env ?w2 = Hang ?w3"
  | (raised) "chat_backend env \<noteq> Silent" "complete_turn u c req env ?w2 = Raise ?w3"
  | (finished) am where "chat_backend env \<noteq> Silent" "msg_role am = RoleAssistant"
      "msg_conversationId am = conv_id c"
      "complete_turn u c req env ?w2 = turn_done u c req env am ?w2"
    using complete_turn_cases [of env u c req ?w2] assistant_message_sel(1,2)
    by (metis backend.distinct(3,5))
  then show ?thesis
  proof cases
    case hang
    then show ?thesis using ct e3 by (simp add: POST_chat_def respond_def)
  next
    case raised
    then show ?thesis using ct e3 by (simp add: POST_chat_def respond_def)
  next
    case finished
    obtain r w' where w': "turn_done u c req env am ?w2 = Respond r w'"
      by (simp add: turn_done_def)
    note tw = turn_done_world [OF w']
    have "effects w' = effects w1 @ [MessageCreate (conv_id c) RoleUser,
           AxiosPost (chat_request u req env)]
           @ [MessageCreate (conv_id c) RoleAssistant, ConversationUpdate (conv_id c)]"
      using tw finished by simp
    then show ?thesis
      using ct finished w' by (simp add: POST_chat_def respond_def)
  qed
qed

lemma resolve_conversation_limits:
  "resolve_conversation u req env (w\<lparr>rateLimits := rl\<rparr>)
     = with_world (set_limits rl) (resolve_conversation u req env w)"
  by (simp add: resolve_conversation_def conversation_findUnique_def conversation_create_def
      emit_def Let_def split: option.splits)

lemma persist_user_message_limits:
  "persist_user_message co req env (w\<lparr>rateLimits := rl\<rparr>)
     = with_world (set_limits rl) (persist_user_message co req env w)"
  by (simp add: persist_user_message_def message_create_def emit_def split: option.splits)

lemma invoke_backend_limits:
  "invoke_backend u req env (w\<lparr>rateLimits := rl\<rparr>)
     = with_world (set_limits rl) (invoke_backend u req env w)"
  by (simp add: invoke_backend_def emit_def Let_def split: axios_result.splits)

lemma persist_assistant_message_limits:
  "persist_assistant_message c d env (w\<lparr>rateLimits := rl\<rparr>)
     = with_world (set_limits rl) (persist_assistant_message c d env w)"
  by (simp add: persist_assistant_message_def message_create_def emit_def Let_def
      split: option.splits jsval.splits)

lemma complete_turn_limits:
  "complete_turn u c req env (w\<lparr>rateLimits := rl\<rparr>)
     = with_world (set_limits rl) (complete_turn u c req env w)"
  unfolding complete_turn_def invoke_backend_limits
  by (rule and_then_with_world, simp add: persist_assistant_message_limits,
      rule and_then_with_world, simp add: conversation_update_def emit_def)

lemma chat_try_limits:
  "chat_try sess req env (w\<lparr>rateLimits := rl\<rparr>)
     = with_world (set_limits rl) (chat_try sess req env w)"
proof (cases "case sess of None \<Rightarrow> None | Some se \<Rightarrow> user se")
  case None
  then show ?thesis by (simp add: chat_try_def)
next
  case (Some u)
  show ?thesis
  proof (cases "req_message req = []")
    case True
    then show ?thesis using Some by (simp add: chat_try_def)
  next
    case False
    have "and_then (with_world (set_limits rl) (resolve_conversation u req env w))
            (\<lambda>conversation w1. and_then (persist_user_message conversation req env w1)
               (\<lambda>c w2. complete_turn u c req env w2))
        = with_world (set_limits rl)
            (and_then (resolve_conversation u req env w)
              (\<lambda>conversation w1. and_then (persist_user_message conversation req env w1)
                 (\<lambda>c w2. complete_turn u c req env w2)))"
      by (rule and_then_with_world, simp add: persist_user_message_limits,
          rule and_then_with_world, simp add: complete_turn_limits)
    then show ?thesis
      using Some False by (simp add: chat_try_def resolve_conversation_limits)
  qed
qed

lemma rows_backend_irrelevant:
  "new_conversation uid req (env\<lparr>chat_backend := b\<rparr>) = new_conversation uid req env"
  "user_message c req (env\<lparr>chat_backend := b\<rparr>) = user_message c req env"
  "assistant_message c reply srcs (env\<lparr>chat_backend := b\<rparr>) = assistant_message c reply srcs env"
  "chat_request u req (env\<lparr>chat_backend := b\<rparr>) = chat_request u req env"
  by (simp_all add: new_conversation_def user_message_def assistant_message_def chat_request_def)

lemma chat_env_backend_irrelevant:
  "resolve_conversation u req (env\<lparr>chat_backend := b\<rparr>) w = resolve_conversation u req env w"
  "persist_user_message co req (env\<lparr>chat_backend := b\<rparr>) w = persist_user_message co req env w"
  "persist_assistant_message c d (env\<lparr>chat_backend := b\<rparr>) w = persist_assistant_message c d env w"
  by (simp_all add: resolve_conversation_def persist_user_message_def
      persist_assistant_message_def rows_backend_irrelevant
      split: option.splits jsval.splits)

lemma chat_try_any_rejection:
  assumes "chat_backend env = Fails e"
  shows "chat_try sess req (env\<lparr>chat_backend := Fails e'\<rparr>) w = chat_try sess req env w"
proof -
  have "\<And>u w2. invoke_backend u req (env\<lparr>chat_backend := Fails e'\<rparr>) w2
      = invoke_backend u req env w2"
    using assms by (simp add: invoke_backend_def axios_post_def rows_backend_irrelevant)
  then have "\<And>u c. complete_turn u c req (env\<lparr>chat_backend := Fails e'\<rparr>)
      = complete_turn u c req env"
    by (intro ext) (simp add: complete_turn_def chat_env_backend_irrelevant)
  then show ?thesis
    by (simp add: chat_try_def chat_env_backend_irrelevant split: option.splits)
qed

text \<open>Unfolding everything for evaluation on sample data.\<close>

lemmas chat_eval =
  POST_chat_def chat_try_def respond_def and_then_def resolve_conversation_def
  persist_user_message_def complete_turn_def invoke_backend_def axios_post_def
  persist_assistant_message_def conversation_findUnique_def conversation_create_def
  conversation_update_def message_create_def emit_def chat_request_def backendUrl_def
  new_conversation_def user_message_def assistant_message_def fallbackResponse_def
  js_id_def json_def issued_def present_def Let_def
  sample_env_def sample_answer_def alice_def counter_at_def empty_world_def
  one_conversation_def new_chat_def chat_in_def
  bob_def sample_request_def

subsection \<open>Admission (claim C1)\<close>

text \<open>
  Claim C1, as stated, on sample data: the caller's counter for \<open>chat\<close> stands at
  \<open>MAX_REQUESTS\<close> in a window that is still active, and \<open>POST\<close> answers 200, having
  created a Conversation and written both Messages.
\<close>

theorem chat_runs_at_exhausted_counter:
  "rateLimits (counter_at 100 6000) (''u1'', ''chat'')
       = Some \<lparr>rl_userId = ''u1'', rl_endpoint = ''chat'', rl_count = 100,
               rl_windowStart = 6000\<rparr>
   \<and> 6003 - 6000 < RATE_LIMIT_WINDOW \<and> MAX_REQUESTS \<le> 100
   \<and> \<not> fst (checkRateLimit alice ''chat'' 6003 (counter_at 100 6000))
   \<and> fst (POST_chat alice new_chat (sample_env (Answers sample_answer)) (counter_at 100 6000))
       = Some \<lparr>res_status = 200,
               res_body = ChatResponse ''c9''
                 \<lparr>msg_id = ''m2'', msg_conversationId = ''c9'', msg_role = RoleAssistant,
                  msg_content = ''hello'', msg_sources = Some (JArr []),
                  msg_createdAt = 6002\<rparr>\<rparr>
   \<and> map conv_id (conversations
         (snd (POST_chat alice new_chat (sample_env (Answers sample_answer))
                (counter_at 100 6000)))) = [''c9'']
   \<and> map msg_role (messages
         (snd (POST_chat alice new_chat (sample_env (Answers sample_answer))
                (counter_at 100 6000)))) = [RoleUser, RoleAssistant]"
  by (simp add: chat_eval checkRateLimit_def session_user_id_def
      RATE_LIMIT_WINDOW_def MAX_REQUESTS_def)

text \<open>
  Claim C1, amended.  \<open>POST /api/chat\<close> does not consult the rate limiter: whatever the
  counters hold, the response and every write are the same, and the counters are left
  as they were.  (Denial at an exhausted counter is what \<open>checkRateLimit\<close> itself
  returns; the route does not call it.)
\<close>

theorem chat_ignores_rate_limit:
  "POST_chat sess req env (w\<lparr>rateLimits := rl\<rparr>)
     = (fst (POST_chat sess req env w), (snd (POST_chat sess req env w))\<lparr>rateLimits := rl\<rparr>)
   \<and> rateLimits (snd (POST_chat sess req env w)) = rateLimits w"
proof -
  have a: "\<And>rl. POST_chat sess req env (w\<lparr>rateLimits := rl\<rparr>)
     = (fst (POST_chat sess req env w), (snd (POST_chat sess req env w))\<lparr>rateLimits := rl\<rparr>)"
    by (cases "chat_try sess req env w") (simp_all add: POST_chat_def respond_def chat_try_limits)
  have "POST_chat sess req env (w\<lparr>rateLimits := rateLimits w\<rparr>) = POST_chat sess req env w"
    by simp
  then have "snd (POST_chat sess req env w)
      = (snd (POST_chat sess req env w))\<lparr>rateLimits := rateLimits w\<rparr>"
    using a [of "rateLimits w"] by (metis snd_conv)
  then have "rateLimits (snd (POST_chat sess req env w))
      = rateLimits ((snd (POST_chat sess req env w))\<lparr>rateLimits := rateLimits w\<rparr>)"
    by simp
  then show ?thesis using a by simp
qed

subsection \<open>Backend failure (claims C4 and C8)\<close>




text \<open>
  Claim C8, as stated, on sample data: the request goes out with no timeout, and when
  the backend never answers the handler never responds (the user Message is already
  written).
\<close>

theorem chat_waits_for_silent_backend:
  "fst (POST_chat alice (chat_in ''c1'') (sample_env Silent) one_conversation) = None
   \<and> issued one_conversation
        (snd (POST_chat alice (chat_in ''c1'') (sample_env Silent) one_conversation))
       = [MessageCreate ''c1'' RoleUser,
          AxiosPost \<lparr>ax_url = ''http://localhost:8000/api/chat'',
            ax_data = JObj [(''userId'', JStr ''u1''), (''message'', JStr ''hi'')],
            ax_timeout = None\<rparr>]"
  by (simp add: chat_eval)

text \<open>
  Claim C8, amended.  The backend request of \<open>POST /api/chat\<close> is issued without a
  timeout, and the handler fails to respond exactly when it has issued that request and
  the backend never answers.  A rejection of the request, a timeout error included, is
  handled as any other rejection is: the outcome is the same whatever the error.
\<close>

theorem chat_backend_no_timeout:
  "(AxiosPost rq \<in> set (issued w (snd (POST_chat sess req env w))) \<longrightarrow> ax_timeout rq = None)
   \<and> (chat_backend env = Fails e \<longrightarrow>
        POST_chat sess req env w = POST_chat sess req (env\<lparr>chat_backend := Fails TimeoutExceeded\<rparr>) w)
   \<and> (fst (POST_chat sess req env w) = None \<longleftrightarrow>
        chat_backend env = Silent
        \<and> (\<exists>rq'. AxiosPost rq' \<in> set (issued w (snd (POST_chat sess req env w)))))"
proof (intro conjI impI)
  assume a: "AxiosPost rq \<in> set (issued w (snd (POST_chat sess req env w)))"
  from chat_reached [OF a]
  obtain u c w1 where u: "(case sess of None \<Rightarrow> None | Some se \<Rightarrow> user se) = Some u"
    and m: "req_message req \<noteq> []"
    and rc: "resolve_conversation u req env w = Continue (Some c) w1"
    by blast
  from chat_resolved_outcome [OF u m rc] effects_resolved [OF rc] a
  have "rq = chat_request u req env"
    by (auto simp: issued_def)
  then show "ax_timeout rq = None" by (simp add: chat_request_def)
next
  assume "chat_backend env = Fails e"
  then show "POST_chat sess req env w
      = POST_chat sess req (env\<lparr>chat_backend := Fails TimeoutExceeded\<rparr>) w"
    by (simp add: POST_chat_def chat_try_any_rejection)
next
  show "fst (POST_chat sess req env w) = None \<longleftrightarrow>
        chat_backend env = Silent
        \<and> (\<exists>rq'. AxiosPost rq' \<in> set (issued w (snd (POST_chat sess req env w))))"
  proof
    assume n: "fst (POST_chat sess req env w) = None"
    then obtain u c w1 where u: "(case sess of None \<Rightarrow> None | Some se \<Rightarrow> user se) = Some u"
      and m: "req_message req \<noteq> []"
      and rc: "resolve_conversation u req env w = Continue (Some c) w1"
      using chat_try_unresolved [of sess req env w] by fastforce
    from chat_resolved_outcome [OF u m rc] effects_resolved [OF rc] n
    show "chat_backend env = Silent
        \<and> (\<exists>rq'. AxiosPost rq' \<in> set (issued w (snd (POST_chat sess req env w))))"
      by (auto simp: issued_def)
  next
    assume s: "chat_backend env = Silent
        \<and> (\<exists>rq'. AxiosPost rq' \<in> set (issued w (snd (POST_chat sess req env w))))"
    then obtain rq' where "AxiosPost rq' \<in> set (issued w (snd (POST_chat sess req env w)))"
      by blast
    from chat_reached [OF this]
    obtain u c w1 where u: "(case sess of None \<Rightarrow> None | Some se \<Rightarrow> user se) = Some u"
      and m: "req_message req \<noteq> []"
      and rc: "resolve_conversation u req env w = Continue (Some c) w1"
      by blast
    from chat_resolved_outcome [OF u m rc] s
    show "fst (POST_chat sess req env w) = None" by blast
  qed
qed

theorem chat_backend_no_timeout_witness:
  "AxiosPost sample_request \<in> set (issued one_conversation
      (snd (POST_chat alice (chat_in ''c1'') (sample_env (Fails (BadStatus 503)))
              one_conversation)))
   \<and> ax_timeout sample_request = None
   \<and> chat_backend (sample_env (Fails (BadStatus 503))) = Fails (BadStatus 503)
   \<and> POST_chat alice (chat_in ''c1'') (sample_env (Fails (BadStatus 503))) one_conversation
       = POST_chat alice (chat_in ''c1'')
           ((sample_env (Fails (BadStatus 503)))\<lparr>chat_backend := Fails TimeoutExceeded\<rparr>)
           one_conversation
   \<and> chat_backend (sample_env Silent) = Silent
   \<and> AxiosPost sample_request \<in> set (issued one_conversation
      (snd (POST_chat alice (chat_in ''c1'') (sample_env Silent) one_conversation)))
   \<and> fst (POST_chat alice (chat_in ''c1'') (sample_env Silent) one_conversation) = None"
proof -
  have h1: "AxiosPost sample_request \<in> set (issued one_conversation
      (snd (POST_chat alice (chat_in ''c1'') (sample_env (Fails (BadStatus 503)))
              one_conversation)))"
    by (simp add: chat_eval)
  have h2: "chat_backend (sample_env (Fails (BadStatus 503))) = Fails (BadStatus 503)"
    by (simp add: sample_env_def)
  have h3: "chat_backend (sample_env Silent) = Silent"
    by (simp add: sample_env_def)
  have h4: "AxiosPost sample_request \<in> set (issued one_conversation
      (snd (POST_chat alice (chat_in ''c1'') (sample_env Silent) one_conversation)))"
    by (simp add: chat_eval)
  note a = chat_backend_no_timeout [where rq = sample_request and w = one_conversation
      and sess = alice and req = "chat_in ''c1''"
      and env = "sample_env (Fails (BadStatus 503))" and e = "BadStatus 503"]
  note b = chat_backend_no_timeout [where w = one_conversation
      and sess = alice and req = "chat_in ''c1''" and env = "sample_env Silent"]
  have 1: "ax_timeout sample_request = None"
    using a h1 by blast
  have 2: "POST_chat alice (chat_in ''c1'') (sample_env (Fails (BadStatus 503))) one_conversation
       = POST_chat alice (chat_in ''c1'')
           ((sample_env (Fails (BadStatus 503)))\<lparr>chat_backend := Fails TimeoutExceeded\<rparr>)
           one_conversation"
    using a h2 by blast
  have 3: "fst (POST_chat alice (chat_in ''c1'') (sample_env Silent) one_conversation) = None"
    using b h3 h4 by blast
  show ?thesis
    using h1 h2 h3 h4 1 2 3 by blast
qed

subsection \<open>A completed turn (claim C5)\<close>

text \<open>
  Claim C5, as stated, on sample data: the Conversation was last touched at clock
  reading 6003 and the update of this call reads the clock at 6003 as well.  The call
  succeeds and \<open>updatedAt\<close> is what it was, not strictly larger.
\<close>

theorem chat_touch_same_millisecond:
  "map conv_updatedAt (conversations one_conversation) = [6003]
   \<and> touchedAt (sample_env (Answers sample_answer)) = 6003
   \<and> fst (POST_chat alice (chat_in ''c1'') (sample_env (Answers sample_answer))
          one_conversation)
       = Some \<lparr>res_status = 200,
               res_body = ChatResponse ''c1''
                 \<lparr>msg_id = ''m2'', msg_conversationId = ''c1'', msg_role = RoleAssistant,
                  msg_content = ''hello'', msg_sources = Some (JArr []),
                  msg_createdAt = 6002\<rparr>\<rparr>
   \<and> map conv_updatedAt (conversations
        (snd (POST_chat alice (chat_in ''c1'') (sample_env (Answers sample_answer))
           one_conversation))) = [6003]"
  by (simp add: chat_eval)

text \<open>
  Claim C5, amended.  Every call that answers 200 has resolved a Conversation \<open>c\<close>
  (found by the given id, or created for the caller) and, after that, has issued exactly:
  the write of the user Message, the backend request, the write of the assistant Message,
  the update of \<open>c\<close>, in this order.  The two Messages are appended to the Message table
  in that order, both with \<open>c\<close>'s id, and the one update sets \<open>updatedAt\<close> of \<open>c\<close> to the
  clock reading taken at that moment (strictly larger than before exactly when that
  reading is later than the stored value); no other Conversation changes.
\<close>

theorem chat_success_turn:
  assumes "fst (POST_chat sess req env w) = Some r" and "res_status r = 200"
  shows "\<exists>u c before am.
      (case sess of None \<Rightarrow> None | Some se \<Rightarrow> user se) = Some u
    \<and> ((\<exists>cid. req_conversationId req = Some cid \<and> cid \<noteq> []
            \<and> conversation_findUnique cid w = Some c \<and> before = w)
       \<or> ((req_conversationId req = None \<or> req_conversationId req = Some [])
            \<and> (\<exists>uid. user_id u = Some uid \<and> c = new_conversation uid req env)
            \<and> before = conversation_create c w))
    \<and> c \<in> set (conversations before)
    \<and> r = json (ChatResponse (conv_id c) am) 200
    \<and> msg_role am = RoleAssistant \<and> msg_conversationId am = conv_id c
    \<and> messages (snd (POST_chat sess req env w)) = messages w @ [user_message c req env, am]
    \<and> issued before (snd (POST_chat sess req env w))
        = [MessageCreate (conv_id c) RoleUser, AxiosPost (chat_request u req env),
           MessageCreate (conv_id c) RoleAssistant, ConversationUpdate (conv_id c)]
    \<and> conversations (snd (POST_chat sess req env w))
        = map (\<lambda>x. if conv_id x = conv_id c then x\<lparr>conv_updatedAt := touchedAt env\<rparr> else x)
            (conversations before)"
proof -
  obtain w' where p: "POST_chat sess req env w = (Some r, w')"
    using assms(1) by (cases "POST_chat sess req env w") simp
  from chat_try_unresolved [of sess req env w] p assms(2)
  obtain u c w1 where u: "(case sess of None \<Rightarrow> None | Some se \<Rightarrow> user se) = Some u"
    and m: "req_message req \<noteq> []"
    and rc: "resolve_conversation u req env w = Continue (Some c) w1"
    by (metis fst_conv option.inject)
  let ?w2 = "message_create (user_message c req env) w1"
  have ct: "chat_try sess req env w = complete_turn u c req env ?w2"
    using chat_try_resolved [OF u m rc] .
  then have "respond (complete_turn u c req env ?w2) = (Some r, w')"
    using p by (simp add: POST_chat_def)
  from complete_turn_200 [OF this assms(2)]
  obtain am where am: "msg_role am = RoleAssistant" "msg_conversationId am = conv_id c"
    and td: "complete_turn u c req env ?w2 = turn_done u c req env am ?w2"
    by blast
  have w': "turn_done u c req env am ?w2 = Respond r w'"
    using td ct p by (simp add: POST_chat_def respond_def turn_done_def)
  note tw = turn_done_world [OF w']
  note rb = resolved_before [OF rc]
  have 1: "(\<exists>cid. req_conversationId req = Some cid \<and> cid \<noteq> []
            \<and> conversation_findUnique cid w = Some c \<and> w1 = w)
       \<or> ((req_conversationId req = None \<or> req_conversationId req = Some [])
            \<and> (\<exists>uid. user_id u = Some uid \<and> c = new_conversation uid req env)
            \<and> w1 = conversation_create c w)"
    using rb by blast
  have 2: "c \<in> set (conversations w1)" using rb by blast
  have 3: "r = json (ChatResponse (conv_id c) am) 200" using tw by blast
  have 4: "messages (snd (POST_chat sess req env w)) = messages w @ [user_message c req env, am]"
    using tw rb p by simp
  have 5: "issued w1 (snd (POST_chat sess req env w))
      = [MessageCreate (conv_id c) RoleUser, AxiosPost (chat_request u req env),
           MessageCreate (conv_id c) RoleAssistant, ConversationUpdate (conv_id c)]"
    using tw am p by (simp add: issued_def user_message_def)
  have 6: "conversations (snd (POST_chat sess req env w))
        = map (\<lambda>x. if conv_id x = conv_id c then x\<lparr>conv_updatedAt := touchedAt env\<rparr> else x)
            (conversations w1)"
    using tw p by simp
  show ?thesis
    apply (intro exI [of _ u] exI [of _ c] exI [of _ w1] exI [of _ am])
    using u 1 2 3 am 4 5 6 apply blast
    done
qed

theorem chat_success_turn_witness:
  "fst (POST_chat alice new_chat (sample_env (Answers sample_answer)) empty_world)
       = Some \<lparr>res_status = 200,
               res_body = ChatResponse ''c9''
                 \<lparr>msg_id = ''m2'', msg_conversationId = ''c9'', msg_role = RoleAssistant,
                  msg_content = ''hello'', msg_sources = Some (JArr []),
                  msg_createdAt = 6002\<rparr>\<rparr>
   \<and> res_status \<lparr>res_status = 200,
               res_body = ChatResponse ''c9''
                 \<lparr>msg_id = ''m2'', msg_conversationId = ''c9'', msg_role = RoleAssistant,
                  msg_content = ''hello'', msg_sources = Some (JArr []),
                  msg_createdAt = 6002\<rparr>\<rparr> = 200
   \<and> (\<exists>u c before am.
         c \<in> set (conversations before)
       \<and> msg_role am = RoleAssistant \<and> msg_conversationId am = conv_id c
       \<and> messages (snd (POST_chat alice new_chat (sample_env (Answers sample_answer))
             empty_world))
           = messages empty_world
               @ [user_message c new_chat (sample_env (Answers sample_answer)), am]
       \<and> issued before (snd (POST_chat alice new_chat (sample_env (Answers sample_answer))
             empty_world))
           = [MessageCreate (conv_id c) RoleUser,
              AxiosPost (chat_request u new_chat (sample_env (Answers sample_answer))),
              MessageCreate (conv_id c) RoleAssistant, ConversationUpdate (conv_id c)])"
proof -
  let ?r = "\<lparr>res_status = 200,
               res_body = ChatResponse ''c9''
                 \<lparr>msg_id = ''m2'', msg_conversationId = ''c9'', msg_role = RoleAssistant,
                  msg_content = ''hello'', msg_sources = Some (JArr []),
                  msg_createdAt = 6002\<rparr>\<rparr>"
  have h1: "fst (POST_chat alice new_chat (sample_env (Answers sample_answer)) empty_world)
       = Some ?r"
    by (simp add: chat_eval)
  have h2: "res_status ?r = 200"
    by simp
  from chat_success_turn [OF h1 h2]
  obtain u c before am where
    "c \<in> set (conversations before)"
    "msg_role am = RoleAssistant" "msg_conversationId am = conv_id c"
    "messages (snd (POST_chat alice new_chat (sample_env (Answers sample_answer))
             empty_world))
           = messages empty_world
               @ [user_message c new_chat (sample_env (Answers sample_answer)), am]"
    "issued before (snd (POST_chat alice new_chat (sample_env (Answers sample_answer))
             empty_world))
           = [MessageCreate (conv_id c) RoleUser,
              AxiosPost (chat_request u new_chat (sample_env (Answers sample_answer))),
              MessageCreate (conv_id c) RoleAssistant, ConversationUpdate (conv_id c)]"
    by blast
  then show ?thesis
    using h1 h2 by blast
qed

subsection \<open>Conversation resolution (claim C6)\<close>

text \<open>
  Claim C6, on the code.  A \<open>conversationId\<close> that refers to no Conversation is answered
  with 403 \<open>Forbidden\<close>, where the claim has a not-found failure (and where the handlers
  that delete a Conversation or a Document by id answer 404).  Nothing is written or
  sent, as the claim says.
\<close>

theorem chat_missing_conversation_is_forbidden:
  "conversation_findUnique ''nope'' one_conversation = None
   \<and> fst (POST_chat alice (chat_in ''nope'') (sample_env (Answers sample_answer)) one_conversation)
       = Some \<lparr>res_status = 403, res_body = Message ''Forbidden''\<rparr>
   \<and> snd (POST_chat alice (chat_in ''nope'') (sample_env (Answers sample_answer))
         one_conversation) = one_conversation"
  by (simp add: chat_eval)

text \<open>
  The guard of lines 27--29 in general.  For a caller with a user id, a non-empty message
  and a non-empty \<open>conversationId\<close>: when no Conversation has that id, or the one that has
  it belongs to another user, the call answers 403 \<open>Forbidden\<close> and nothing is written or
  sent (no Conversation, no Message, \<open>updatedAt\<close> untouched).
\<close>

lemma chat_foreign_conversation_forbidden:
  assumes "(case sess of None \<Rightarrow> None | Some se \<Rightarrow> user se) = Some u"
    and "user_id u = Some uid"
    and "req_message req \<noteq> []"
    and "req_conversationId req = Some cid" and "cid \<noteq> []"
    and "conversation_findUnique cid w = None
       \<or> (\<exists>c. conversation_findUnique cid w = Some c \<and> conv_userId c \<noteq> uid)"
  shows "POST_chat sess req env w = (Some (json (Message ''Forbidden'') 403), w)"
proof -
  have "resolve_conversation u req env w = Respond (json (Message ''Forbidden'') 403) w"
    using assms(2,4,5,6) by (auto simp: resolve_conversation_def present_def)
  then show ?thesis
    using assms(1,3) by (simp add: POST_chat_def chat_try_def respond_def)
qed

lemma chat_foreign_conversation_forbidden_example:
  "(case alice of None \<Rightarrow> None | Some se \<Rightarrow> user se) = Some \<lparr>user_id = Some ''u1''\<rparr>
   \<and> (case bob of None \<Rightarrow> None | Some se \<Rightarrow> user se) = Some \<lparr>user_id = Some ''u2''\<rparr>
   \<and> req_message (chat_in ''nope'') \<noteq> []
   \<and> req_conversationId (chat_in ''nope'') = Some ''nope''
   \<and> conversation_findUnique ''nope'' one_conversation = None
   \<and> map_option conv_userId (conversation_findUnique ''c1'' one_conversation) = Some ''u1''
   \<and> POST_chat alice (chat_in ''nope'') (sample_env (Answers sample_answer)) one_conversation
       = (Some (json (Message ''Forbidden'') 403), one_conversation)
   \<and> POST_chat bob (chat_in ''c1'') (sample_env (Answers sample_answer)) one_conversation
       = (Some (json (Message ''Forbidden'') 403), one_conversation)"
proof -
  have a: "(case alice of None \<Rightarrow> None | Some se \<Rightarrow> user se) = Some \<lparr>user_id = Some ''u1''\<rparr>"
    by (simp add: alice_def)
  have b: "(case bob of None \<Rightarrow> None | Some se \<Rightarrow> user se) = Some \<lparr>user_id = Some ''u2''\<rparr>"
    by (simp add: bob_def)
  have ua: "user_id \<lparr>user_id = Some ''u1''\<rparr> = Some ''u1''" by simp
  have ub: "user_id \<lparr>user_id = Some ''u2''\<rparr> = Some ''u2''" by simp
  have m1: "req_message (chat_in ''nope'') \<noteq> []" by (simp add: chat_in_def)
  have m2: "req_message (chat_in ''c1'') \<noteq> []" by (simp add: chat_in_def)
  have i1: "req_conversationId (chat_in ''nope'') = Some ''nope''" by (simp add: chat_in_def)
  have i2: "req_conversationId (chat_in ''c1'') = Some ''c1''" by (simp add: chat_in_def)
  have n1: "''nope'' \<noteq> []" by simp
  have n2: "''c1'' \<noteq> []" by simp
  have f1: "conversation_findUnique ''nope'' one_conversation = None"
    by (simp add: conversation_findUnique_def one_conversation_def empty_world_def)
  have f2: "conversation_findUnique ''c1'' one_conversation
      = Some \<lparr>conv_id = ''c1'', conv_userId = ''u1'', conv_title = ''first'',
         conv_createdAt = 1000, conv_updatedAt = 6003\<rparr>"
    by (simp add: conversation_findUnique_def one_conversation_def empty_world_def)
  have d1: "conversation_findUnique ''nope'' one_conversation = None
       \<or> (\<exists>c. conversation_findUnique ''nope'' one_conversation = Some c
              \<and> conv_userId c \<noteq> ''u1'')"
    using f1 by simp
  have d2: "conversation_findUnique ''c1'' one_conversation = None
       \<or> (\<exists>c. conversation_findUnique ''c1'' one_conversation = Some c
              \<and> conv_userId c \<noteq> ''u2'')"
    using f2 by simp
  show ?thesis
    using a b m1 i1 f1 f2
      chat_foreign_conversation_forbidden [OF a ua m1 i1 n1 d1,
        of "sample_env (Answers sample_answer)"]
      chat_foreign_conversation_forbidden [OF b ub m2 i2 n2 d2,
        of "sample_env (Answers sample_answer)"]
    by simp
qed

section \<open>Properties of the upload route\<close>

lemmas upload_steps =
  POST_upload_def upload_try_def respond_def and_then_def mkdir_def writeFile_def
  document_create_def trigger_processing_def axios_post_def issued_def emit_def json_def
  Let_def

lemmas upload_rows =
  upload_document_def process_request_def upload_filename_def upload_filepath_def

lemmas upload_samples =
  backendUrl_def js_id_def show_int_def digit_def sample_file_def nested_file_def
  sample_upload_env_def slash_join_def parent_dir_def alice_def empty_world_def

lemma upload_backend_irrelevant:
  "upload_filename f (env\<lparr>upload_backend := b\<rparr>) = upload_filename f env"
  "upload_filepath f (env\<lparr>upload_backend := b\<rparr>) = upload_filepath f env"
  "upload_document uid f (env\<lparr>upload_backend := b\<rparr>) = upload_document uid f env"
  "process_request doc u f (env\<lparr>upload_backend := b\<rparr>) = process_request doc u f env"
  "mkdir (env\<lparr>upload_backend := b\<rparr>) p w = mkdir env p w"
  "writeFile (env\<lparr>upload_backend := b\<rparr>) p bytes w = writeFile env p bytes w"
  "document_create (env\<lparr>upload_backend := b\<rparr>) u f w = document_create env u f w"
  by (simp_all add: upload_rows mkdir_def writeFile_def document_create_def Let_def
      split: option.splits)

text \<open>
  A file name with a directory in it: \<open>writeFile\<close> finds no such directory under
  \<open>uploads\<close>, the handler answers 500, and neither a Document nor a request to the
  backend follows.
\<close>

lemma upload_nested_name_fails:
  "fst (POST_upload alice (Some nested_file) (sample_upload_env (Fails NetworkError))
          empty_world)
     = Some \<lparr>res_status = 500, res_body = Message ''Internal server error''\<rparr>
   \<and> documents (snd (POST_upload alice (Some nested_file)
          (sample_upload_env (Fails NetworkError)) empty_world)) = []
   \<and> issued empty_world (snd (POST_upload alice (Some nested_file)
          (sample_upload_env (Fails NetworkError)) empty_world)) = [Mkdir ''/app/uploads'']"
  by (simp add: upload_steps upload_rows upload_samples)

text \<open>
  Claim C9.  For an upload by an authenticated user with a file present, if the request
  to \<open>/api/process-document\<close> was issued and is rejected, the handler still answers 200
  with \<open>{documentId, filename, status: "processing"}\<close> of the row it created; the caller
  has a user id, the request issued is the one for that row, and the row is in the
  Document table as it was created: the world after the call is the one a successful
  trigger leaves.
\<close>

theorem upload_trigger_failure_tolerated:
  assumes "(case sess of None \<Rightarrow> None | Some se \<Rightarrow> user se) = Some u"
    and "AxiosPost rq \<in> set (issued w (snd (POST_upload sess (Some f) env w)))"
    and "upload_backend env = Fails e"
  shows "\<exists>uid. user_id u = Some uid
       \<and> rq = process_request (upload_document uid f env) u f env
       \<and> fst (POST_upload sess (Some f) env w)
           = Some (json (UploadResponse (new_id (documentStamp env))
                     (upload_filename f env) ''processing'') 200)
       \<and> documents (snd (POST_upload sess (Some f) env w))
           = documents w @ [upload_document uid f env]
       \<and> doc_id (upload_document uid f env) = new_id (documentStamp env)
       \<and> doc_filename (upload_document uid f env) = upload_filename f env
       \<and> doc_status (upload_document uid f env) = ''processing''
       \<and> snd (POST_upload sess (Some f) env w)
           = snd (POST_upload sess (Some f) (env\<lparr>upload_backend := Answers d\<rparr>) w)"
proof -
  let ?up = "pathJoin env (cwd env) ''uploads''"
  have m: "mkdir env ?up w \<noteq> Raise w"
    using assms by (auto simp: upload_steps split: if_splits)
  then obtain w1 where w1: "mkdir env ?up w = Continue () w1"
    "effects w1 = effects w @ [Mkdir ?up]" "documents w1 = documents w"
    by (auto simp: mkdir_def emit_def split: if_splits)
  have wr: "writeFile env (upload_filepath f env) (file_bytes f) w1 \<noteq> Raise w1"
    using assms w1 by (auto simp: upload_steps split: if_splits)
  then obtain w2 where w2: "writeFile env (upload_filepath f env) (file_bytes f) w1 = Continue () w2"
    "effects w2 = effects w1 @ [WriteFile (upload_filepath f env)]" "documents w2 = documents w1"
    by (auto simp: writeFile_def emit_def split: if_splits)
  have dc: "document_create env u f w2 \<noteq> Raise w2"
    using assms w1 w2 by (auto simp: upload_steps split: if_splits option.splits)
  then obtain uid where uid: "user_id u = Some uid" and nf: "\<not> faulty env OpDocumentCreate"
    by (auto simp: document_create_def split: option.splits if_splits)
  let ?doc = "upload_document uid f env"
  let ?w3 = "emit (DocumentCreate (doc_id ?doc)) (w2\<lparr>documents := documents w2 @ [?doc]\<rparr>)"
  have d3: "document_create env u f w2 = Continue ?doc ?w3"
    using uid nf by (simp add: document_create_def Let_def)
  have t: "upload_try sess (Some f) env w = trigger_processing ?doc u f env ?w3"
    using assms(1) w1(1) w2(1) d3 by (simp add: upload_try_def and_then_def)
  have t': "upload_try sess (Some f) (env\<lparr>upload_backend := Answers d\<rparr>) w
      = trigger_processing ?doc u f (env\<lparr>upload_backend := Answers d\<rparr>) ?w3"
    using assms(1) w1(1) w2(1) d3
    by (simp add: upload_try_def and_then_def upload_backend_irrelevant)
  have p: "POST_upload sess (Some f) env w
      = (Some (json (UploadResponse (doc_id ?doc) (doc_filename ?doc) (doc_status ?doc)) 200),
         emit (AxiosPost (process_request ?doc u f env)) ?w3)"
    using t assms(3) by (simp add: POST_upload_def respond_def trigger_processing_def axios_post_def)
  have p': "snd (POST_upload sess (Some f) (env\<lparr>upload_backend := Answers d\<rparr>) w)
      = emit (AxiosPost (process_request ?doc u f env)) ?w3"
    using t' by (simp add: POST_upload_def respond_def trigger_processing_def axios_post_def
        upload_backend_irrelevant)
  have rq: "rq = process_request ?doc u f env"
    using assms(2) p w1 w2 by (auto simp: issued_def emit_def)
  have docs: "documents (snd (POST_upload sess (Some f) env w)) = documents w @ [?doc]"
    using p w1 w2 by (simp add: emit_def)
  show ?thesis
    using uid rq p p' docs by (simp add: upload_document_def)
qed

theorem upload_trigger_failure_tolerated_witness:
  "(case alice of None \<Rightarrow> None | Some se \<Rightarrow> user se) = Some \<lparr>user_id = Some ''u1''\<rparr>
   \<and> AxiosPost
        \<lparr>ax_url = ''http://backend/api/process-document'',
         ax_data = JObj [(''documentId'', JStr ''d1''), (''filename'', JStr ''42-a.txt''),
                         (''filepath'', JStr ''/app/uploads/42-a.txt''),
                         (''userId'', JStr ''u1'')],
         ax_timeout = None\<rparr>
       \<in> set (issued empty_world (snd (POST_upload alice (Some sample_file)
            (sample_upload_env (Fails NetworkError)) empty_world)))
   \<and> upload_backend (sample_upload_env (Fails NetworkError)) = Fails NetworkError
   \<and> fst (POST_upload alice (Some sample_file) (sample_upload_env (Fails NetworkError))
            empty_world)
       = Some \<lparr>res_status = 200, res_body = UploadResponse ''d1'' ''42-a.txt'' ''processing''\<rparr>
   \<and> documents (snd (POST_upload alice (Some sample_file)
            (sample_upload_env (Fails NetworkError)) empty_world))
       = [\<lparr>doc_id = ''d1'', doc_userId = ''u1'', doc_filename = ''42-a.txt'',
          doc_originalName = ''a.txt'', doc_fileType = ''text/plain'', doc_fileSize = 2,
          doc_status = ''processing'', doc_uploadedAt = 43\<rparr>]"
proof -
  let ?rq = "\<lparr>ax_url = ''http://backend/api/process-document'',
         ax_data = JObj [(''documentId'', JStr ''d1''), (''filename'', JStr ''42-a.txt''),
                         (''filepath'', JStr ''/app/uploads/42-a.txt''),
                         (''userId'', JStr ''u1'')],
         ax_timeout = None\<rparr>"
  have a: "(case alice of None \<Rightarrow> None | Some se \<Rightarrow> user se) = Some \<lparr>user_id = Some ''u1''\<rparr>"
    by (simp add: alice_def)
  have b: "AxiosPost ?rq
       \<in> set (issued empty_world (snd (POST_upload alice (Some sample_file)
            (sample_upload_env (Fails NetworkError)) empty_world)))"
    by (simp add: upload_steps upload_rows upload_samples)
  have c: "upload_backend (sample_upload_env (Fails NetworkError)) = Fails NetworkError"
    by (simp add: sample_upload_env_def)
  from upload_trigger_failure_tolerated [OF a b c]
  have "fst (POST_upload alice (Some sample_file) (sample_upload_env (Fails NetworkError))
            empty_world)
       = Some \<lparr>res_status = 200, res_body = UploadResponse ''d1'' ''42-a.txt'' ''processing''\<rparr>
   \<and> documents (snd (POST_upload alice (Some sample_file)
            (sample_upload_env (Fails NetworkError)) empty_world))
       = [\<lparr>doc_id = ''d1'', doc_userId = ''u1'', doc_filename = ''42-a.txt'',
          doc_originalName = ''a.txt'', doc_fileType = ''text/plain'', doc_fileSize = 2,
          doc_status = ''processing'', doc_uploadedAt = 43\<rparr>]"
    by (auto simp: upload_document_def upload_filename_def show_int_def digit_def json_def
        sample_file_def sample_upload_env_def empty_world_def)
  then show ?thesis
    using a b c by blast
qed

section \<open>Properties of the password route\<close>

text \<open>
  Claim C10.  For a password update by a session user whose row holds a password hash,
  when \<open>compare\<close> says that the supplied \<open>currentPassword\<close> does not match that hash the
  handler answers 400 and the world, the stored password included, is what it was: no
  update is issued.
\<close>

theorem password_mismatch_rejected:
  assumes "(case sess of None \<Rightarrow> None | Some se \<Rightarrow> user se) = Some u"
    and "user_id u = Some uid"
    and "users w uid = Some usr"
    and "usr_password usr = Some stored" and "stored \<noteq> []"
    and "currentPassword req = Some cur" and "\<not> compare cur stored"
  shows "(\<exists>msg. fst (PUT_password compare hash sess req w) = Some (json (Message msg) 400))
       \<and> snd (PUT_password compare hash sess req w) = w
       \<and> users (snd (PUT_password compare hash sess req w)) uid = Some usr"
  using assms
  by (auto simp: PUT_password_def password_try_def respond_def present_def
      split: option.splits)

theorem password_mismatch_rejected_witness:
  "(case alice of None \<Rightarrow> None | Some se \<Rightarrow> user se) = Some \<lparr>user_id = Some ''u1''\<rparr>
   \<and> users one_user ''u1'' = Some \<lparr>usr_id = ''u1'', usr_password = Some ''H(secret)''\<rparr>
   \<and> \<not> toy_compare ''guess'' ''H(secret)''
   \<and> (\<exists>msg. fst (PUT_password toy_compare toy_hash alice
         \<lparr>currentPassword = Some ''guess'', newPassword = Some ''next''\<rparr> one_user)
        = Some (json (Message msg) 400))
   \<and> snd (PUT_password toy_compare toy_hash alice
         \<lparr>currentPassword = Some ''guess'', newPassword = Some ''next''\<rparr> one_user) = one_user"
proof -
  have a: "(case alice of None \<Rightarrow> None | Some se \<Rightarrow> user se) = Some \<lparr>user_id = Some ''u1''\<rparr>"
    by (simp add: alice_def)
  have b: "user_id \<lparr>user_id = Some ''u1''\<rparr> = Some ''u1''"
    by simp
  have c: "users one_user ''u1'' = Some \<lparr>usr_id = ''u1'', usr_password = Some ''H(secret)''\<rparr>"
    by (simp add: one_user_def empty_world_def)
  have d: "usr_password \<lparr>usr_id = ''u1'', usr_password = Some ''H(secret)''\<rparr> = Some ''H(secret)''"
    by simp
  have e: "''H(secret)'' \<noteq> []"
    by simp
  have f: "currentPassword \<lparr>currentPassword = Some ''guess'', newPassword = Some ''next''\<rparr>
      = Some ''guess''"
    by simp
  have g: "\<not> toy_compare ''guess'' ''H(secret)''"
    by (simp add: toy_compare_def)
  show ?thesis
    using a c g
      password_mismatch_rejected [where compare = toy_compare and hash = toy_hash,
        OF a b c d e f g]
    by blast
qed

end
